theory Spec2Isabelle
  imports Main "HOL-Library.Sublist"
begin

section \<open>Values exchanged with the exchange\<close>

text \<open>
  \<^verbatim>\<open>response.json()\<close> yields a Python value built from dicts, lists, strings, numbers,
  booleans and \<^verbatim>\<open>None\<close>. A dict is kept as the list of its items (keys distinct). The
  program never computes with a float, so a float is kept as its \<^verbatim>\<open>repr\<close>.
\<close>

datatype json =
    JNull
  | JBool bool
  | JInt int
  | JFloat string
  | JStr string
  | JArr "json list"
  | JObj "(string \<times> json) list"

text \<open>
  The exceptions that can leave the program. \<open>ClientError\<close> stands for whatever
  \<^verbatim>\<open>session.get\<close> or \<^verbatim>\<open>response.json()\<close> raises (connection failure, undecodable
  body); the others are the Python built-ins of the same name. The source defines no
  exception class of its own.
\<close>

datatype error =
    ClientError
  | KeyError string
  | TypeError
  | AttributeError
  | ValueError

section \<open>Python primitives used by the scraper\<close>

text \<open>\<^verbatim>\<open>obj[key]\<close> with a string key: only a dict can answer.\<close>

fun getitem :: "json \<Rightarrow> string \<Rightarrow> error + json" where
  "getitem (JObj items) key =
     (case map_of items key of None \<Rightarrow> Inl (KeyError key) | Some v \<Rightarrow> Inr v)"
| "getitem _ key = Inl TypeError"

text \<open>
  \<^verbatim>\<open>for x in obj\<close>: a list yields its elements, a dict its keys, a string its characters;
  nothing else is iterable.
\<close>

fun iter :: "json \<Rightarrow> error + json list" where
  "iter (JArr xs) = Inr xs"
| "iter (JObj items) = Inr (map (\<lambda>kv. JStr (fst kv)) items)"
| "iter (JStr s) = Inr (map (\<lambda>c. JStr [c]) s)"
| "iter _ = Inl TypeError"

text \<open>\<^verbatim>\<open>obj.endswith(suffix)\<close>: a method of \<^verbatim>\<open>str\<close> only.\<close>

fun endswith :: "json \<Rightarrow> string \<Rightarrow> error + bool" where
  "endswith (JStr s) suf = Inr (suffix suf s)"
| "endswith _ suf = Inl AttributeError"

text \<open>\<^verbatim>\<open>str(n)\<close> for an integer, as the f-string of the endpoint formats \<open>limit\<close>.\<close>

fun digits :: "nat \<Rightarrow> string" where
  "digits n =
     (if n < 10 then [''0123456789'' ! n]
      else digits (n div 10) @ [''0123456789'' ! (n mod 10)])"

declare digits.simps [simp del]

definition str_int :: "int \<Rightarrow> string" where
  "str_int i = (if i < 0 then CHR ''-'' # digits (nat (- i)) else digits (nat i))"

section \<open>The part of pandas the scraper uses\<close>

text \<open>
  A cell of a table: a value as received, a timestamp (milliseconds since the epoch), or
  one of the two missing-value markers.
\<close>

datatype cell = Val json | Timestamp int | NaT | NaN

text \<open>
  A \<^verbatim>\<open>DataFrame\<close>: its column labels in order, its rows (each row answers for every
  label; only the labels in \<open>columns\<close> are ever read), and its index: \<open>None\<close> is the
  default \<^verbatim>\<open>RangeIndex\<close>, \<open>Some (name, values)\<close> an index set from a column.
\<close>

record dataframe =
  index :: "(string \<times> cell list) option"
  columns :: "string list"
  rows :: "(string \<Rightarrow> cell) list"

text \<open>
  What pandas does outside the inputs modelled below is left open: \<open>frame_other\<close> is the
  outcome of \<^verbatim>\<open>pd.DataFrame(data, columns=...)\<close> for a payload that is not a list of lists;
  \<open>cell_other\<close> is the cell pandas keeps for a value, given the whole column it arrived
  in, when that column is neither all integers of 64 bits nor all strings (pandas gives
  a column one dtype, so an integer next to a float or to a missing value is kept as a
  float, and what stands for a missing value depends on the dtype and on the version);
  \<open>datetime_other\<close> is the outcome of \<^verbatim>\<open>pd.to_datetime(..., unit='ms')\<close> for a cell that
  is not an integer within the range of a timestamp.
\<close>

record pandas =
  frame_other :: "json \<Rightarrow> error + (string \<Rightarrow> cell) list"
  cell_other :: "json list \<Rightarrow> json \<Rightarrow> cell"
  datetime_other :: "cell \<Rightarrow> error + cell"

text \<open>\<^verbatim>\<open>pd.DataFrame()\<close>\<close>

definition empty_frame :: dataframe where
  "empty_frame = \<lparr>index = None, columns = [], rows = []\<rparr>"

text \<open>The elements of a list payload, when every one of them is itself a list.\<close>

fun list_rows :: "json list \<Rightarrow> json list list option" where
  "list_rows [] = Some []"
| "list_rows (JArr r # rest) =
     (case list_rows rest of None \<Rightarrow> None | Some rs \<Rightarrow> Some (r # rs))"
| "list_rows (_ # rest) = None"

text \<open>
  The cell kept for a value of a column: the value itself when the column holds only
  integers of 64 bits (dtype \<^verbatim>\<open>int64\<close>) or only strings; what pandas makes of it
  otherwise.
\<close>

definition is_int64 :: "json \<Rightarrow> bool" where
  "is_int64 v =
     (case v of JInt n \<Rightarrow> - 9223372036854775808 \<le> n \<and> n \<le> 9223372036854775807 | _ \<Rightarrow> False)"

definition is_str :: "json \<Rightarrow> bool" where
  "is_str v = (case v of JStr _ \<Rightarrow> True | _ \<Rightarrow> False)"

definition stored :: "pandas \<Rightarrow> json list \<Rightarrow> json \<Rightarrow> cell" where
  "stored lib col v =
     (if list_all is_int64 col \<or> list_all is_str col then Val v else cell_other lib col v)"

text \<open>A row shorter than the table is wide is filled up with \<^verbatim>\<open>None\<close> before the dtypes are chosen.\<close>

definition pad :: "nat \<Rightarrow> json list \<Rightarrow> json list" where
  "pad k r = r @ replicate (k - length r) JNull"

fun position :: "string \<Rightarrow> string list \<Rightarrow> nat option" where
  "position c [] = None"
| "position c (x # xs) = (if c = x then Some 0 else map_option Suc (position c xs))"

text \<open>
  One row of a list-of-lists payload \<open>table\<close> under the given labels: the \<open>j\<close>-th field
  answers for the \<open>j\<close>-th label, kept as its column demands.
\<close>

definition row_of ::
    "pandas \<Rightarrow> string list \<Rightarrow> json list list \<Rightarrow> json list \<Rightarrow> string \<Rightarrow> cell" where
  "row_of lib cols table candle =
     (\<lambda>c. case position c cols of
            None \<Rightarrow> NaN
          | Some j \<Rightarrow>
              stored lib (map (\<lambda>r. pad (length cols) r ! j) table) (pad (length cols) candle ! j))"

text \<open>
  \<^verbatim>\<open>pd.DataFrame(data, columns=cols)\<close>. For a list of lists pandas sizes the table by
  the longest row and raises \<^verbatim>\<open>ValueError\<close> unless that width is the number of labels;
  an empty list gives an empty table with the labels. The result always carries exactly
  the labels passed.
\<close>

definition widest :: "json list list \<Rightarrow> nat" where
  "widest rs = foldr (\<lambda>r k. max (length r) k) rs 0"

definition DataFrame :: "pandas \<Rightarrow> json \<Rightarrow> string list \<Rightarrow> error + dataframe" where
  "DataFrame lib data cols =
     (case (case data of JArr items \<Rightarrow> list_rows items | _ \<Rightarrow> None) of
        Some rs \<Rightarrow>
          if rs \<noteq> [] \<and> widest rs \<noteq> length cols then Inl ValueError
          else Inr \<lparr>index = None, columns = cols, rows = map (row_of lib cols rs) rs\<rparr>
      | None \<Rightarrow>
          (case frame_other lib data of
             Inl e \<Rightarrow> Inl e
           | Inr rs \<Rightarrow> Inr \<lparr>index = None, columns = cols, rows = rs\<rparr>))"

text \<open>\<^verbatim>\<open>df[name] = value\<close> with a scalar: a new label goes last.\<close>

definition setitem :: "dataframe \<Rightarrow> string \<Rightarrow> cell \<Rightarrow> dataframe" where
  "setitem df name v =
     df\<lparr>columns := (if name \<in> set (columns df) then columns df else columns df @ [name]),
        rows := map (\<lambda>r. r(name := v)) (rows df)\<rparr>"

text \<open>
  \<^verbatim>\<open>pd.concat([a, b], ignore_index=True)\<close>: the labels of \<open>a\<close>, then those of \<open>b\<close> not
  yet present; the rows of \<open>a\<close>, then those of \<open>b\<close>; a cell under a label its table did
  not have is \<^verbatim>\<open>NaN\<close>; the index is renumbered.
\<close>

definition restrict :: "string list \<Rightarrow> (string \<Rightarrow> cell) \<Rightarrow> string \<Rightarrow> cell" where
  "restrict cols r = (\<lambda>c. if c \<in> set cols then r c else NaN)"

definition pd_concat :: "dataframe \<Rightarrow> dataframe \<Rightarrow> dataframe" where
  "pd_concat a b =
     \<lparr>index = None,
      columns = columns a @ filter (\<lambda>c. c \<notin> set (columns a)) (columns b),
      rows = map (restrict (columns a)) (rows a) @ map (restrict (columns b)) (rows b)\<rparr>"

text \<open>
  \<^verbatim>\<open>pd.to_datetime(x, unit='ms')\<close> on one cell: an integer count of milliseconds that
  fits a nanosecond timestamp of 64 bits becomes that timestamp.
\<close>

definition to_datetime :: "pandas \<Rightarrow> cell \<Rightarrow> error + cell" where
  "to_datetime lib c =
     (case c of
        Val (JInt n) \<Rightarrow>
          if \<bar>n\<bar> \<le> 9223372036854 then Inr (Timestamp n) else datetime_other lib c
      | _ \<Rightarrow> datetime_other lib c)"

text \<open>The conversion of a whole column fails when one of its cells fails.\<close>

fun convert_cells :: "(cell \<Rightarrow> error + cell) \<Rightarrow> cell list \<Rightarrow> error + cell list" where
  "convert_cells f [] = Inr []"
| "convert_cells f (c # cs) =
     (case f c of
        Inl e \<Rightarrow> Inl e
      | Inr t \<Rightarrow> (case convert_cells f cs of Inl e \<Rightarrow> Inl e | Inr ts \<Rightarrow> Inr (t # ts)))"

text \<open>
  \<^verbatim>\<open>df[name] = pd.to_datetime(df[name], unit='ms')\<close>: reading a label the table does
  not have raises \<^verbatim>\<open>KeyError\<close>.
\<close>

definition convert_column :: "pandas \<Rightarrow> dataframe \<Rightarrow> string \<Rightarrow> error + dataframe" where
  "convert_column lib df name =
     (if name \<notin> set (columns df) then Inl (KeyError name)
      else case convert_cells (to_datetime lib) (map (\<lambda>r. r name) (rows df)) of
             Inl e \<Rightarrow> Inl e
           | Inr ts \<Rightarrow> Inr (df\<lparr>rows := map (\<lambda>(r, t). r(name := t)) (zip (rows df) ts)\<rparr>))"

text \<open>\<^verbatim>\<open>df.set_index(name, inplace=True)\<close>: the column leaves the table and becomes its index.\<close>

definition set_index :: "dataframe \<Rightarrow> string \<Rightarrow> error + dataframe" where
  "set_index df name =
     (if name \<notin> set (columns df) then Inl (KeyError name)
      else Inr \<lparr>index = Some (name, map (\<lambda>r. r name) (rows df)),
                columns = filter (\<lambda>c. c \<noteq> name) (columns df),
                rows = rows df\<rparr>)"

text \<open>\<^verbatim>\<open>df.drop(labels, axis=1, inplace=True)\<close>: every label must be present.\<close>

definition drop_columns :: "dataframe \<Rightarrow> string list \<Rightarrow> error + dataframe" where
  "drop_columns df labels =
     (case filter (\<lambda>l. l \<notin> set (columns df)) labels of
        l # _ \<Rightarrow> Inl (KeyError l)
      | [] \<Rightarrow> Inr (df\<lparr>columns := filter (\<lambda>c. c \<notin> set labels) (columns df)\<rparr>))"

text \<open>
  The table \<^verbatim>\<open>df.to_csv(path)\<close> writes: a header (the index name, then the labels) and
  one line per row (the index value, then the cells under the labels in order).
  Rendering the cells as text is the writer's business.
\<close>

record csv =
  header :: "string list"
  lines :: "cell list list"

definition to_csv :: "dataframe \<Rightarrow> csv" where
  "to_csv df =
     \<lparr>header = (case index df of None \<Rightarrow> [] | Some (name, _) \<Rightarrow> name) # columns df,
      lines = map (\<lambda>(i, r). i # map r (columns df))
                (zip (case index df of
                        None \<Rightarrow> map (\<lambda>k. Val (JInt (int k))) [0..<length (rows df)]
                      | Some (_, vs) \<Rightarrow> vs)
                     (rows df))\<rparr>"

section \<open>The scraper\<close>

record params =
  tf :: string
  limit :: int

record scraper =
  symbols_url :: string
  symbols_list :: "string list"
  params :: params
  historical_data :: dataframe

text \<open>\<^verbatim>\<open>__init__\<close>: the arguments are stored as given.\<close>

definition init :: "string \<Rightarrow> int \<Rightarrow> scraper" where
  "init tf' limit' =
     \<lparr>symbols_url = ''https://api.binance.com/api/v3/exchangeInfo'',
      symbols_list = [],
      params = \<lparr>tf = tf', limit = limit'\<rparr>,
      historical_data = empty_frame\<rparr>"

text \<open>
  \<^verbatim>\<open>fetch\<close>: the exchange is a function from the URL requested to the outcome of
  \<^verbatim>\<open>session.get\<close> followed by \<^verbatim>\<open>response.json()\<close>. The HTTP status is not looked at,
  so an error body the exchange sends as JSON is an ordinary result.
\<close>

definition fetch :: "(string \<Rightarrow> error + json) \<Rightarrow> string \<Rightarrow> error + json" where
  "fetch net url = net url"

definition kline_columns :: "string list" where
  "kline_columns =
     [''Open time'', ''Open'', ''High'', ''Low'', ''Close'', ''Volume'', ''Close time'',
      ''Quote asset volume'', ''Number of trades'', ''Taker buy base asset volume'',
      ''Taker buy quote asset volume'', ''Ignore'']"

definition endpoint :: "scraper \<Rightarrow> string \<Rightarrow> string" where
  "endpoint self symbol =
     ''https://api.binance.com/api/v3/klines?symbol='' @ symbol @
     ''&interval='' @ tf (params self) @ ''&limit='' @ str_int (limit (params self))"

text \<open>\<^verbatim>\<open>get_historical_data\<close> (the progress bar only counts and is left out).\<close>

definition get_historical_data ::
    "(string \<Rightarrow> error + json) \<Rightarrow> pandas \<Rightarrow> scraper \<Rightarrow> string \<Rightarrow> error + dataframe" where
  "get_historical_data net lib self symbol =
     (case fetch net (endpoint self symbol) of
        Inl e \<Rightarrow> Inl e
      | Inr response \<Rightarrow>
          (case DataFrame lib response kline_columns of
             Inl e \<Rightarrow> Inl e
           | Inr symbol_df \<Rightarrow> Inr (setitem symbol_df ''Symbol'' (Val (JStr symbol)))))"

text \<open>
  The condition and the element of the list comprehension of \<^verbatim>\<open>scrape\<close> for one entry:
  \<open>Some name\<close> when the entry is kept. \<^verbatim>\<open>and\<close> does not evaluate its right operand
  when the left one is false, so \<^verbatim>\<open>symbol['status']\<close> is read only for a name that ends
  with USDT.
\<close>

definition select_symbol :: "json \<Rightarrow> error + string option" where
  "select_symbol symbol =
     (case getitem symbol ''symbol'' of
        Inl e \<Rightarrow> Inl e
      | Inr name \<Rightarrow>
          (case endswith name ''USDT'' of
             Inl e \<Rightarrow> Inl e
           | Inr False \<Rightarrow> Inr None
           | Inr True \<Rightarrow>
               (case getitem symbol ''status'' of
                  Inl e \<Rightarrow> Inl e
                | Inr status \<Rightarrow>
                    if status = JStr ''TRADING''
                    then Inr (case name of JStr s \<Rightarrow> Some s | _ \<Rightarrow> None)
                    else Inr None)))"

fun comprehension :: "json list \<Rightarrow> error + string list" where
  "comprehension [] = Inr []"
| "comprehension (symbol # rest) =
     (case select_symbol symbol of
        Inl e \<Rightarrow> Inl e
      | Inr sel \<Rightarrow>
          (case comprehension rest of
             Inl e \<Rightarrow> Inl e
           | Inr names \<Rightarrow> Inr (case sel of None \<Rightarrow> names | Some s \<Rightarrow> s # names)))"

text \<open>Lines 62 to 64 of \<^verbatim>\<open>scrape\<close>: from the metadata response to the symbol list.\<close>

definition symbols_of :: "json \<Rightarrow> error + string list" where
  "symbols_of response =
     (case getitem response ''symbols'' of
        Inl e \<Rightarrow> Inl e
      | Inr symbols_data \<Rightarrow>
          (case iter symbols_data of
             Inl e \<Rightarrow> Inl e
           | Inr entries \<Rightarrow> comprehension entries))"

text \<open>
  \<^verbatim>\<open>asyncio.gather(*tasks)\<close>. The tasks run concurrently and finish in an order the
  program does not control: \<open>sched\<close> names it (task numbers in order of completion;
  numbers out of range and repetitions are ignored, tasks not named finish last, in
  the order of their creation). The first task to finish with an exception makes
  \<^verbatim>\<open>gather\<close> raise it; when none does, the results come in the order of creation.
\<close>

definition completion_order :: "nat \<Rightarrow> nat list \<Rightarrow> nat list" where
  "completion_order n sched =
     remdups (filter (\<lambda>i. i < n) sched) @ filter (\<lambda>i. i \<notin> set sched) [0..<n]"

fun first_error :: "(error + 'a) list \<Rightarrow> error option" where
  "first_error [] = None"
| "first_error (Inl e # rest) = Some e"
| "first_error (Inr _ # rest) = first_error rest"

fun results_of :: "(error + 'a) list \<Rightarrow> 'a list" where
  "results_of [] = []"
| "results_of (Inl e # rest) = results_of rest"
| "results_of (Inr x # rest) = x # results_of rest"

definition gather :: "nat list \<Rightarrow> (error + 'a) list \<Rightarrow> error + 'a list" where
  "gather sched outcomes =
     (case first_error (map (\<lambda>i. outcomes ! i) (completion_order (length outcomes) sched)) of
        Some e \<Rightarrow> Inl e
      | None \<Rightarrow> Inr (results_of outcomes))"

definition dropped_columns :: "string list" where
  "dropped_columns =
     [''Close time'', ''Quote asset volume'', ''Number of trades'',
      ''Taker buy base asset volume'', ''Taker buy quote asset volume'', ''Ignore'']"

definition output_path :: string where
  "output_path = ''binance_historical_data.csv''"

text \<open>
  \<^verbatim>\<open>scrape\<close>: the outcome, the scraper as the run leaves it, and the files as the run
  leaves them. An exception ends the run where it is raised.
\<close>

definition scrape ::
    "nat list \<Rightarrow> (string \<Rightarrow> error + json) \<Rightarrow> pandas \<Rightarrow> scraper \<Rightarrow> (string \<rightharpoonup> csv)
      \<Rightarrow> (error + unit) \<times> scraper \<times> (string \<rightharpoonup> csv)" where
  "scrape sched net lib self files =
     (case fetch net (symbols_url self) of
        Inl e \<Rightarrow> (Inl e, self, files)
      | Inr response \<Rightarrow>
     (case symbols_of response of
        Inl e \<Rightarrow> (Inl e, self, files)
      | Inr symbols \<Rightarrow>
     (let self1 = self\<lparr>symbols_list := symbols\<rparr> in
     (case gather sched (map (get_historical_data net lib self1) (symbols_list self1)) of
        Inl e \<Rightarrow> (Inl e, self1, files)
      | Inr results \<Rightarrow>
     (let df2 = foldl pd_concat (historical_data self1) results in
     (case convert_column lib df2 ''Open time'' of
        Inl e \<Rightarrow> (Inl e, self1\<lparr>historical_data := df2\<rparr>, files)
      | Inr df3 \<Rightarrow>
     (case convert_column lib df3 ''Close time'' of
        Inl e \<Rightarrow> (Inl e, self1\<lparr>historical_data := df3\<rparr>, files)
      | Inr df4 \<Rightarrow>
     (case set_index df4 ''Open time'' of
        Inl e \<Rightarrow> (Inl e, self1\<lparr>historical_data := df4\<rparr>, files)
      | Inr df5 \<Rightarrow>
     (case drop_columns df5 dropped_columns of
        Inl e \<Rightarrow> (Inl e, self1\<lparr>historical_data := df5\<rparr>, files)
      | Inr df6 \<Rightarrow>
          (Inr (), self1\<lparr>historical_data := df6\<rparr>,
           files(output_path \<mapsto> to_csv df6)))))))))))"

text \<open>
  The module's own statements, after \<^verbatim>\<open>parse_args\<close> has returned: each parameter
  comes from the command line when given there and from the prompt otherwise
  (\<open>typed_limit\<close> is the outcome of \<^verbatim>\<open>int(input(...))\<close>, which raises on text that is
  not an integer, \<open>typed_tf\<close> that of \<^verbatim>\<open>str(input(...))\<close>); the limit is asked for
  first; then the scraper is built and run.
\<close>

definition run_module ::
    "int option \<Rightarrow> string option \<Rightarrow> error + int \<Rightarrow> error + string
      \<Rightarrow> nat list \<Rightarrow> (string \<Rightarrow> error + json) \<Rightarrow> pandas \<Rightarrow> (string \<rightharpoonup> csv)
      \<Rightarrow> (error + unit) \<times> (string \<rightharpoonup> csv)" where
  "run_module args_limit args_tf typed_limit typed_tf sched net lib files =
     (case (case args_limit of None \<Rightarrow> typed_limit | Some l \<Rightarrow> Inr l) of
        Inl e \<Rightarrow> (Inl e, files)
      | Inr limit' \<Rightarrow>
          (case (case args_tf of None \<Rightarrow> typed_tf | Some t \<Rightarrow> Inr t) of
             Inl e \<Rightarrow> (Inl e, files)
           | Inr tf' \<Rightarrow>
               (case scrape sched net lib (init tf' limit') files of
                  (outcome, _, files') \<Rightarrow> (outcome, files'))))"

section \<open>Notions used to state the properties\<close>

text \<open>
  The symbol catalog: the first request of \<^verbatim>\<open>scrape\<close> and the filter applied to its
  answer (lines 61 to 64).
\<close>

definition catalog :: "(string \<Rightarrow> error + json) \<Rightarrow> scraper \<Rightarrow> error + string list" where
  "catalog net self =
     (case fetch net (symbols_url self) of
        Inl e \<Rightarrow> Inl e
      | Inr response \<Rightarrow> symbols_of response)"

text \<open>
  The identifier of a catalog entry, and the two conditions of the catalog in the
  words of the specification: the identifier ends with USDT and the status is TRADING.
\<close>

definition symbol_name :: "json \<Rightarrow> string option" where
  "symbol_name e = (case getitem e ''symbol'' of Inr (JStr s) \<Rightarrow> Some s | _ \<Rightarrow> None)"

definition is_active_usdt :: "json \<Rightarrow> bool" where
  "is_active_usdt e =
     ((case symbol_name e of Some s \<Rightarrow> suffix ''USDT'' s | None \<Rightarrow> False) \<and>
      getitem e ''status'' = Inr (JStr ''TRADING''))"

text \<open>The labels of the table one candle request yields, and those of the written table.\<close>

definition frame_columns :: "string list" where
  "frame_columns = kline_columns @ [''Symbol'']"

definition output_columns :: "string list" where
  "output_columns = [''Open'', ''High'', ''Low'', ''Close'', ''Volume'', ''Symbol'']"

text \<open>
  The request for at most \<open>lim\<close> candles of a symbol at an interval, as the exchange
  reads it.
\<close>

definition klines_request :: "string \<Rightarrow> string \<Rightarrow> int \<Rightarrow> string" where
  "klines_request symbol interval lim =
     ''https://api.binance.com/api/v3/klines?symbol='' @ symbol @ ''&interval='' @ interval @
     ''&limit='' @ str_int lim"

section \<open>A small exchange for the examples\<close>

definition kline :: "int \<Rightarrow> json" where
  "kline t =
     JArr [JInt t, JStr ''1.0'', JStr ''2.0'', JStr ''0.5'', JStr ''1.5'', JStr ''100'',
           JInt (t + 59999), JStr ''150'', JInt 10, JStr ''50'', JStr ''75'', JStr ''0'']"

definition entry :: "string \<Rightarrow> string \<Rightarrow> json" where
  "entry name status = JObj [(''symbol'', JStr name), (''status'', JStr status)]"

text \<open>
  The exchange answers the metadata request with \<open>info\<close>, has two candles for BTCUSDT
  and three for ETHUSDT at the interval and limit asked for, and no connection for
  anything else.
\<close>

definition example_net :: "json \<Rightarrow> string \<Rightarrow> int \<Rightarrow> string \<Rightarrow> error + json" where
  "example_net info t l url =
     (if url = ''https://api.binance.com/api/v3/exchangeInfo'' then Inr info
      else if url = endpoint (init t l) ''BTCUSDT'' then Inr (JArr [kline 1000, kline 2000])
      else if url = endpoint (init t l) ''ETHUSDT''
        then Inr (JArr [kline 1000, kline 2000, kline 3000])
      else Inl ClientError)"

definition example_info :: json where
  "example_info =
     JObj [(''timezone'', JStr ''UTC''),
           (''symbols'', JArr [entry ''BTCUSDT'' ''TRADING'', entry ''ETHBTC'' ''TRADING'',
                               entry ''LUNAUSDT'' ''BREAK'', entry ''ETHUSDT'' ''TRADING''])]"

text \<open>The same catalog with one more active USDT pair, for which the exchange has no answer.\<close>

definition example_info_unreachable :: json where
  "example_info_unreachable =
     JObj [(''symbols'', JArr [entry ''BTCUSDT'' ''TRADING'', entry ''BNBUSDT'' ''TRADING'',
                               entry ''ETHUSDT'' ''TRADING''])]"

text \<open>A catalog with an entry that has no status.\<close>

definition example_info_no_status :: json where
  "example_info_no_status =
     JObj [(''symbols'', JArr [entry ''BTCUSDT'' ''TRADING'', JObj [(''symbol'', JStr ''ETHBTC'')]])]"

text \<open>
  An exchange with that catalog, no answer for BNBUSDT and a candle of two fields for
  ETHUSDT.
\<close>

definition example_net_faulty :: "string \<Rightarrow> error + json" where
  "example_net_faulty url =
     (if url = ''https://api.binance.com/api/v3/exchangeInfo'' then Inr example_info_unreachable
      else if url = endpoint (init ''1h'' 5) ''BTCUSDT'' then Inr (JArr [kline 1000, kline 2000])
      else if url = endpoint (init ''1h'' 5) ''ETHUSDT''
        then Inr (JArr [JArr [JInt 1000, JStr ''1.0'']])
      else Inl ClientError)"

definition example_pandas :: pandas where
  "example_pandas =
     \<lparr>frame_other = (\<lambda>_. Inl ValueError), cell_other = (\<lambda>_ _. NaN),
      datetime_other = (\<lambda>_. Inl ValueError)\<rparr>"

section \<open>Collecting the tasks\<close>

lemma set_completion_order: "set (completion_order n sched) = {..<n}"
  by (auto simp: completion_order_def)

lemma first_error_None_iff: "first_error rs = None \<longleftrightarrow> (\<forall>e. Inl e \<notin> set rs)"
  by (induction rs rule: first_error.induct) auto

lemma first_error_Some: "first_error rs = Some e \<Longrightarrow> Inl e \<in> set rs"
  by (induction rs rule: first_error.induct) auto

lemma no_Inl_results: "(\<forall>e. Inl e \<notin> set rs) \<Longrightarrow> rs = map Inr (results_of rs)"
  by (induction rs rule: results_of.induct) auto

lemma set_scheduled: "set (map (\<lambda>i. rs ! i) (completion_order (length rs) sched)) = set rs"
proof -
  have "set (map (\<lambda>i. rs ! i) (completion_order (length rs) sched)) = (\<lambda>i. rs ! i) ` {..<length rs}"
    by (simp add: set_completion_order)
  also have "\<dots> = set rs"
    by (auto simp: in_set_conv_nth)
  finally show ?thesis .
qed

lemma gather_Inr: "gather sched rs = Inr xs \<Longrightarrow> rs = map Inr xs"
  unfolding gather_def
  using first_error_None_iff[of "map (\<lambda>i. rs ! i) (completion_order (length rs) sched)"]
  by (auto split: option.splits simp: set_scheduled simp del: set_map intro: no_Inl_results)

lemma gather_Inl: "gather sched rs = Inl e \<Longrightarrow> Inl e \<in> set rs"
  unfolding gather_def
  using first_error_Some[of "map (\<lambda>i. rs ! i) (completion_order (length rs) sched)" e]
  by (auto split: option.splits simp: set_scheduled simp del: set_map)

lemma gather_map_Inr: "gather sched (map Inr xs) = Inr xs"
proof (cases "gather sched (map Inr xs)")
  case (Inl e)
  from gather_Inl[OF this] show ?thesis by auto
next
  case (Inr ys)
  from gather_Inr[OF this] have "map Inr xs = (map Inr ys :: (error + 'a) list)" .
  then have "xs = ys" by (simp add: inj_map_eq_map)
  with Inr show ?thesis by simp
qed

lemma gather_fails: "Inl e \<in> set rs \<Longrightarrow> \<exists>e'. gather sched rs = Inl e' \<and> Inl e' \<in> set rs"
proof (cases "gather sched rs")
  case (Inl e')
  with gather_Inl[OF this] show ?thesis by simp
next
  case (Inr ys)
  assume "Inl e \<in> set rs"
  with gather_Inr[OF Inr] show ?thesis by auto
qed

lemma distinct_completion_order: "distinct (completion_order n sched)"
  by (auto simp: completion_order_def)

lemma length_completion_order: "length (completion_order n sched) = n"
  using distinct_card[OF distinct_completion_order[of n sched]]
  by (simp add: set_completion_order)

lemma completion_order_less: "i < n \<Longrightarrow> completion_order n sched ! i < n"
  using nth_mem[of i "completion_order n sched"]
  by (simp add: length_completion_order set_completion_order)

lemma first_error_first:
  "first_error rs = Some e \<Longrightarrow>
     \<exists>i < length rs. rs ! i = Inl e \<and> (\<forall>j < i. \<exists>x. rs ! j = Inr x)"
proof (induction rs rule: first_error.induct)
  case 1
  then show ?case by simp
next
  case (2 e' rest)
  then show ?case by auto
next
  case (3 x rest)
  then obtain i where i: "i < length rest" "rest ! i = Inl e" "\<forall>j < i. \<exists>y. rest ! j = Inr y"
    by auto
  have "\<forall>j < Suc i. \<exists>y. (Inr x # rest) ! j = Inr y"
    using i(3) by (auto simp: nth_Cons split: nat.splits)
  with i(1,2) show ?case
    by (intro exI[of _ "Suc i"]) simp
qed

lemma gather_Inl_first:
  assumes "gather sched rs = Inl e"
  shows "\<exists>i < length rs. rs ! (completion_order (length rs) sched ! i) = Inl e \<and>
           (\<forall>j < i. \<exists>x. rs ! (completion_order (length rs) sched ! j) = Inr x)"
proof -
  let ?order = "completion_order (length rs) sched"
  from assms have "first_error (map (\<lambda>i. rs ! i) ?order) = Some e"
    by (auto simp: gather_def split: option.splits)
  from first_error_first[OF this] show ?thesis
    by (auto simp: length_completion_order)
qed

section \<open>One candle request\<close>

lemma DataFrame_Inr:
  "DataFrame lib data cols = Inr df \<Longrightarrow> columns df = cols \<and> index df = None"
  by (auto simp: DataFrame_def split: option.splits sum.splits if_splits)

lemma get_historical_data_Inr:
  assumes "get_historical_data net lib self s = Inr df"
  shows "columns df = frame_columns" and "index df = None"
    and "\<forall>r \<in> set (rows df). r ''Symbol'' = Val (JStr s)"
proof -
  from assms obtain response df0 where
    d: "DataFrame lib response kline_columns = Inr df0" and
    df: "df = setitem df0 ''Symbol'' (Val (JStr s))"
    by (auto simp: get_historical_data_def split: sum.splits)
  from DataFrame_Inr[OF d] have c: "columns df0 = kline_columns" and i: "index df0 = None"
    by simp_all
  show "columns df = frame_columns"
    by (simp add: df setitem_def c frame_columns_def) (simp add: kline_columns_def)
  show "index df = None"
    by (simp add: df setitem_def i)
  show "\<forall>r \<in> set (rows df). r ''Symbol'' = Val (JStr s)"
    by (auto simp: df setitem_def)
qed

lemma get_historical_data_self:
  "get_historical_data net lib (self\<lparr>symbols_list := syms\<rparr>) = get_historical_data net lib self"
  by (rule ext) (simp add: get_historical_data_def endpoint_def)

section \<open>Merging and writing\<close>

lemma restrict_idem: "restrict C (restrict C r) = restrict C r"
  by (rule ext) (simp add: restrict_def)

lemma foldl_pd_concat:
  assumes "\<forall>f \<in> set fs. columns f = C" and "columns acc = C" and "fs \<noteq> []"
  shows "foldl pd_concat acc fs =
           \<lparr>index = None, columns = C,
            rows = map (restrict C) (rows acc) @ concat (map (\<lambda>f. map (restrict C) (rows f)) fs)\<rparr>"
  using assms
proof (induction fs arbitrary: acc)
  case Nil
  then show ?case by simp
next
  case (Cons f fs)
  let ?acc = "pd_concat acc f"
  have step: "?acc = \<lparr>index = None, columns = C,
                       rows = map (restrict C) (rows acc) @ map (restrict C) (rows f)\<rparr>"
    using Cons.prems by (simp add: pd_concat_def)
  show ?case
  proof (cases "fs = []")
    case True
    then show ?thesis by (simp add: step)
  next
    case False
    have "foldl pd_concat ?acc fs =
            \<lparr>index = None, columns = C,
             rows = map (restrict C) (rows ?acc) @ concat (map (\<lambda>f. map (restrict C) (rows f)) fs)\<rparr>"
      using Cons.prems False by (intro Cons.IH) (simp_all add: step)
    then show ?thesis by (simp add: step restrict_idem)
  qed
qed

lemma foldl_pd_concat_empty:
  assumes "\<forall>f \<in> set fs. columns f = C" and "fs \<noteq> []"
  shows "foldl pd_concat empty_frame fs =
           \<lparr>index = None, columns = C, rows = concat (map (\<lambda>f. map (restrict C) (rows f)) fs)\<rparr>"
proof -
  obtain f fs' where fs: "fs = f # fs'" using assms(2) by (cases fs) auto
  have first: "pd_concat empty_frame f = \<lparr>index = None, columns = C, rows = map (restrict C) (rows f)\<rparr>"
    using assms(1) by (simp add: pd_concat_def empty_frame_def fs)
  show ?thesis
  proof (cases "fs' = []")
    case True
    then show ?thesis by (simp add: fs first)
  next
    case False
    have "foldl pd_concat (pd_concat empty_frame f) fs' =
            \<lparr>index = None, columns = C,
             rows = map (restrict C) (rows (pd_concat empty_frame f)) @
                    concat (map (\<lambda>f. map (restrict C) (rows f)) fs')\<rparr>"
      using assms(1) False by (intro foldl_pd_concat) (simp_all add: fs first)
    then show ?thesis by (simp add: fs first restrict_idem)
  qed
qed

lemma convert_cells_Inr:
  "convert_cells f cs = Inr ts \<Longrightarrow> map f cs = map Inr ts"
  by (induction cs arbitrary: ts) (auto split: sum.splits)

lemma convert_column_Inr:
  assumes "convert_column lib df name = Inr df'"
  obtains ts where "name \<in> set (columns df)"
    and "map (to_datetime lib) (map (\<lambda>r. r name) (rows df)) = map Inr ts"
    and "df' = df\<lparr>rows := map (\<lambda>(r, t). r(name := t)) (zip (rows df) ts)\<rparr>"
  using assms
  by (auto simp: convert_column_def split: if_splits sum.splits dest: convert_cells_Inr)

lemma scrape_InrD:
  assumes "scrape sched net lib self files = (Inr (), self', files')"
  obtains response results df3 df4 df5 df6 where
    "fetch net (symbols_url self) = Inr response"
    "symbols_of response = Inr (symbols_list self')"
    "gather sched (map (get_historical_data net lib self) (symbols_list self')) = Inr results"
    "convert_column lib (foldl pd_concat (historical_data self) results) ''Open time'' = Inr df3"
    "convert_column lib df3 ''Close time'' = Inr df4"
    "set_index df4 ''Open time'' = Inr df5"
    "drop_columns df5 dropped_columns = Inr df6"
    "files' = files(output_path \<mapsto> to_csv df6)"
  using assms
  by (auto simp: scrape_def Let_def get_historical_data_self split: sum.splits)

lemma written_table:
  assumes c: "columns df2 = frame_columns"
    and o: "convert_column lib df2 ''Open time'' = Inr df3"
    and cl: "convert_column lib df3 ''Close time'' = Inr df4"
    and s: "set_index df4 ''Open time'' = Inr df5"
    and d: "drop_columns df5 dropped_columns = Inr df6"
  obtains ts ts' where
    "map (to_datetime lib) (map (\<lambda>r. r ''Open time'') (rows df2)) = map Inr ts"
    "map (to_datetime lib) (map (\<lambda>r. r ''Close time'') (rows df2)) = map Inr ts'"
    "to_csv df6 = \<lparr>header = ''Open time'' # output_columns,
                   lines = map (\<lambda>(t, r). t # map r output_columns) (zip ts (rows df2))\<rparr>"
proof -
  from o obtain ts where
    ts: "map (to_datetime lib) (map (\<lambda>r. r ''Open time'') (rows df2)) = map Inr ts" and
    df3: "df3 = df2\<lparr>rows := map (\<lambda>(r, t). r(''Open time'' := t)) (zip (rows df2) ts)\<rparr>"
    by (rule convert_column_Inr)
  from cl obtain ts' where
    ts': "map (to_datetime lib) (map (\<lambda>r. r ''Close time'') (rows df3)) = map Inr ts'" and
    df4: "df4 = df3\<lparr>rows := map (\<lambda>(r, t). r(''Close time'' := t)) (zip (rows df3) ts')\<rparr>"
    by (rule convert_column_Inr)
  have len: "length ts = length (rows df2)"
    using arg_cong[OF ts, of length] by simp
  have len3: "length (rows df3) = length (rows df2)"
    by (simp add: df3 len)
  have len': "length ts' = length (rows df2)"
    using arg_cong[OF ts', of length] len3 by simp
  have len4: "length (rows df4) = length (rows df2)"
    by (simp add: df4 len3 len')
  have close3: "map (\<lambda>r. r ''Close time'') (rows df3) = map (\<lambda>r. r ''Close time'') (rows df2)"
    by (rule nth_equalityI) (simp_all add: len3, simp add: df3 len)
  have c4: "columns df4 = frame_columns"
    by (simp add: df4 df3 c)
  have df5: "df5 = \<lparr>index = Some (''Open time'', map (\<lambda>r. r ''Open time'') (rows df4)),
                     columns = filter (\<lambda>c. c \<noteq> ''Open time'') frame_columns,
                     rows = rows df4\<rparr>"
    using s by (auto simp: set_index_def c4 split: if_splits)
  have c6: "filter (\<lambda>c. c \<notin> set dropped_columns) (filter (\<lambda>c. c \<noteq> ''Open time'') frame_columns)
              = output_columns"
    by (simp add: frame_columns_def kline_columns_def dropped_columns_def output_columns_def)
  have df6: "df6 = df5\<lparr>columns := output_columns\<rparr>"
    using d by (auto simp: drop_columns_def df5 c6 simp del: filter_filter split: list.splits)
  have row4: "rows df4 ! i = (rows df2 ! i)(''Open time'' := ts ! i, ''Close time'' := ts' ! i)"
    if "i < length (rows df2)" for i
    using that by (simp add: df4 df3 len len' len3)
  have idx: "map (\<lambda>r. r ''Open time'') (rows df4) = ts"
    by (rule nth_equalityI) (simp_all add: len len4 row4)
  have cells: "map (rows df4 ! i) output_columns = map (rows df2 ! i) output_columns"
    if "i < length (rows df2)" for i
    using that by (simp add: row4 output_columns_def)
  have "map (\<lambda>(i, r). i # map r output_columns) (zip ts (rows df4))
          = map (\<lambda>(t, r). t # map r output_columns) (zip ts (rows df2))"
    by (rule nth_equalityI) (simp_all add: len len4 cells)
  then have "to_csv df6 = \<lparr>header = ''Open time'' # output_columns,
                   lines = map (\<lambda>(t, r). t # map r output_columns) (zip ts (rows df2))\<rparr>"
    by (simp add: to_csv_def df6 df5 idx)
  with ts ts'[unfolded close3] show ?thesis by (rule that)
qed

lemma restrict_rows:
  assumes "set cols \<subseteq> set C"
  shows "map (\<lambda>(t, r). t # map r cols) (zip ts (map (restrict C) rs))
           = map (\<lambda>(t, r). t # map r cols) (zip ts rs)"
proof -
  have "map (restrict C r) cols = map r cols" for r
    using assms by (auto simp: restrict_def)
  then show ?thesis
    by (simp add: zip_map2 case_prod_unfold)
qed

lemma scrape_success:
  assumes run: "scrape sched net lib (init t l) files = (Inr (), self', files')"
  obtains frames ts ts' where
    "catalog net (init t l) = Inr (symbols_list self')"
    "map (get_historical_data net lib (init t l)) (symbols_list self') = map Inr frames"
    "frames \<noteq> []"
    "map (to_datetime lib) (map (\<lambda>r. r ''Open time'') (concat (map rows frames))) = map Inr ts"
    "map (to_datetime lib) (map (\<lambda>r. r ''Close time'') (concat (map rows frames))) = map Inr ts'"
    "files' = files(output_path \<mapsto>
        \<lparr>header = ''Open time'' # output_columns,
         lines = map (\<lambda>(t, r). t # map r output_columns) (zip ts (concat (map rows frames)))\<rparr>)"
proof -
  from run obtain response frames df3 df4 df5 df6 where
    f: "fetch net (symbols_url (init t l)) = Inr response" and
    sy: "symbols_of response = Inr (symbols_list self')" and
    g: "gather sched (map (get_historical_data net lib (init t l)) (symbols_list self')) = Inr frames" and
    o: "convert_column lib (foldl pd_concat (historical_data (init t l)) frames) ''Open time'' = Inr df3" and
    cl: "convert_column lib df3 ''Close time'' = Inr df4" and
    s: "set_index df4 ''Open time'' = Inr df5" and
    d: "drop_columns df5 dropped_columns = Inr df6" and
    w: "files' = files(output_path \<mapsto> to_csv df6)"
    by (rule scrape_InrD)
  let ?R = "concat (map rows frames)"
  have cat: "catalog net (init t l) = Inr (symbols_list self')"
    by (simp add: catalog_def f sy)
  have all: "map (get_historical_data net lib (init t l)) (symbols_list self') = map Inr frames"
    using g by (rule gather_Inr)
  have cols: "\<forall>f \<in> set frames. columns f = frame_columns"
  proof
    fix f assume "f \<in> set frames"
    then have "Inr f \<in> set (map (get_historical_data net lib (init t l)) (symbols_list self'))"
      by (simp add: all)
    then obtain s where "get_historical_data net lib (init t l) s = Inr f" by auto
    then show "columns f = frame_columns" by (rule get_historical_data_Inr)
  qed
  have h0: "historical_data (init t l) = empty_frame"
    by (simp add: init_def)
  have ne: "frames \<noteq> []"
  proof
    assume "frames = []"
    with o show False
      by (simp add: h0 convert_column_def empty_frame_def)
  qed
  have df2: "foldl pd_concat (historical_data (init t l)) frames =
               \<lparr>index = None, columns = frame_columns, rows = map (restrict frame_columns) ?R\<rparr>"
    by (simp add: h0 foldl_pd_concat_empty[OF cols ne] map_concat comp_def)
  from written_table[OF _ o cl s d] df2 obtain ts ts' where
    ts: "map (to_datetime lib) (map (\<lambda>r. r ''Open time'') (map (restrict frame_columns) ?R)) = map Inr ts" and
    ts': "map (to_datetime lib) (map (\<lambda>r. r ''Close time'') (map (restrict frame_columns) ?R)) = map Inr ts'" and
    csv: "to_csv df6 = \<lparr>header = ''Open time'' # output_columns,
                   lines = map (\<lambda>(t, r). t # map r output_columns) (zip ts (map (restrict frame_columns) ?R))\<rparr>"
    by auto
  have o_in: "restrict frame_columns r ''Open time'' = r ''Open time''" for r
    by (simp add: restrict_def frame_columns_def kline_columns_def)
  have c_in: "restrict frame_columns r ''Close time'' = r ''Close time''" for r
    by (simp add: restrict_def frame_columns_def kline_columns_def)
  have sub: "set output_columns \<subseteq> set frame_columns"
    by (simp add: output_columns_def frame_columns_def kline_columns_def)
  have ts2: "map (to_datetime lib) (map (\<lambda>r. r ''Open time'') ?R) = map Inr ts"
    using ts by (simp add: o_in comp_def)
  have ts2': "map (to_datetime lib) (map (\<lambda>r. r ''Close time'') ?R) = map Inr ts'"
    using ts' by (simp add: c_in comp_def)
  have "files' = files(output_path \<mapsto>
        \<lparr>header = ''Open time'' # output_columns,
         lines = map (\<lambda>(t, r). t # map r output_columns) (zip ts ?R)\<rparr>)"
    by (simp add: w csv restrict_rows[OF sub])
  with cat all ne ts2 ts2' show ?thesis by (rule that)
qed

lemma scrape_catalog_fails:
  "catalog net self = Inl e \<Longrightarrow> scrape sched net lib self files = (Inl e, self, files)"
  by (auto simp: catalog_def scrape_def split: sum.splits)

section \<open>The catalog\<close>

lemma select_symbol_Inr:
  "select_symbol e = Inr sel \<Longrightarrow> sel = (if is_active_usdt e then symbol_name e else None)"
  by (auto simp: select_symbol_def symbol_name_def is_active_usdt_def
      split: sum.splits bool.splits if_splits json.splits elim: endswith.elims)

lemma active_named: "is_active_usdt e \<Longrightarrow> \<exists>s. symbol_name e = Some s"
  by (auto simp: is_active_usdt_def split: option.splits)

lemma comprehension_Inr:
  "comprehension es = Inr syms \<Longrightarrow>
     syms = map (\<lambda>e. the (symbol_name e)) (filter is_active_usdt es)"
proof (induction es arbitrary: syms)
  case Nil
  then show ?case by simp
next
  case (Cons e es)
  from Cons.prems obtain sel names where
    s: "select_symbol e = Inr sel" and c: "comprehension es = Inr names" and
    r: "syms = (case sel of None \<Rightarrow> names | Some s \<Rightarrow> s # names)"
    by (auto split: sum.splits)
  from select_symbol_Inr[OF s] Cons.IH[OF c] r active_named[of e] show ?case
    by (auto split: option.splits)
qed


lemma scrape_symbols_list:
  "catalog net self = Inr syms \<Longrightarrow> symbols_list (fst (snd (scrape sched net lib self files))) = syms"
  by (auto simp: catalog_def scrape_def Let_def split: sum.splits)



section \<open>Payloads that are lists of lists\<close>

lemma list_rows_map_JArr: "list_rows (map JArr candles) = Some candles"
  by (induction candles) auto



lemma get_historical_data_candles:
  assumes "fetch net (endpoint self s) = Inr (JArr (map JArr candles))"
  shows "get_historical_data net lib self s =
           (if candles \<noteq> [] \<and> widest candles \<noteq> 12 then Inl ValueError
            else Inr \<lparr>index = None, columns = frame_columns,
                      rows = map (\<lambda>c. (row_of lib kline_columns candles c)(''Symbol'' := Val (JStr s)))
                               candles\<rparr>)"
proof -
  have n: "length kline_columns = 12" and notin: "''Symbol'' \<notin> set kline_columns"
    by (simp_all add: kline_columns_def)
  show ?thesis
    by (simp add: get_historical_data_def assms DataFrame_def list_rows_map_JArr n setitem_def
        notin frame_columns_def comp_def)
qed

section \<open>The whole run\<close>

lemma gather_any_schedule: "gather sched rs = Inr xs \<Longrightarrow> gather sched' rs = Inr xs"
  using gather_Inr[of sched rs xs] by (simp add: gather_map_Inr)

lemma scrape_any_schedule:
  assumes "scrape sched net lib self files = (Inr (), self', files')"
  shows "scrape sched' net lib self files = (Inr (), self', files')"
proof -
  from assms obtain response symbols results where
    f: "fetch net (symbols_url self) = Inr response" and
    sy: "symbols_of response = Inr symbols" and
    g: "gather sched (map (get_historical_data net lib (self\<lparr>symbols_list := symbols\<rparr>)) symbols)
          = Inr results"
    by (auto simp: scrape_def Let_def split: sum.splits)
  note g' = gather_any_schedule[OF g, of sched']
  show ?thesis
    using assms by (simp add: scrape_def Let_def f sy g g')
qed

lemma frame_of_symbol:
  assumes "map (get_historical_data net lib self) syms = map Inr frames" and "f \<in> set frames"
  shows "\<exists>s \<in> set syms. get_historical_data net lib self s = Inr f"
proof -
  from assms have "Inr f \<in> set (map (get_historical_data net lib self) syms)" by simp
  then show ?thesis by auto
qed

lemma symbol_column_blocks:
  "map (get_historical_data net lib self) syms = map Inr frames \<Longrightarrow>
     concat (map (\<lambda>f. map (\<lambda>r. r ''Symbol'') (rows f)) frames)
       = concat (map (\<lambda>(s, f). replicate (length (rows f)) (Val (JStr s))) (zip syms frames))"
proof (induction syms arbitrary: frames)
  case Nil
  then show ?case by simp
next
  case (Cons s syms)
  from Cons.prems obtain f fs where
    fr: "frames = f # fs" and h: "get_historical_data net lib self s = Inr f" and
    t: "map (get_historical_data net lib self) syms = map Inr fs"
    by (cases frames) auto
  have "map (\<lambda>r. r ''Symbol'') (rows f) = replicate (length (rows f)) (Val (JStr s))"
    using get_historical_data_Inr(3)[OF h] by (simp add: map_replicate_const[symmetric] cong: map_cong)
  with Cons.IH[OF t] show ?case by (simp add: fr)
qed

lemma convert_cells_map_Inr:
  "map f cs = map Inr ts \<Longrightarrow> convert_cells f cs = Inr ts"
  by (induction cs arbitrary: ts) auto

lemma scrape_completes:
  assumes cat: "catalog net (init t l) = Inr syms" and ne: "syms \<noteq> []"
    and all: "map (get_historical_data net lib (init t l)) syms = map Inr frames"
    and ts: "map (to_datetime lib) (map (\<lambda>r. r ''Open time'') (concat (map rows frames))) = map Inr ts"
    and ts': "map (to_datetime lib) (map (\<lambda>r. r ''Close time'') (concat (map rows frames))) = map Inr ts'"
  shows "fst (scrape sched net lib (init t l) files) = Inr ()"
proof -
  let ?R = "map (restrict frame_columns) (concat (map rows frames))"
  from cat obtain response where
    f: "fetch net (symbols_url (init t l)) = Inr response" and
    sy: "symbols_of response = Inr syms"
    by (auto simp: catalog_def split: sum.splits)
  have g: "gather sched (map (get_historical_data net lib (init t l)) syms) = Inr frames"
    by (simp add: all gather_map_Inr)
  have fne: "frames \<noteq> []"
    using arg_cong[OF all, of length] ne by auto
  have cols: "\<forall>f \<in> set frames. columns f = frame_columns"
    using frame_of_symbol[OF all] get_historical_data_Inr(1) by blast
  have h0: "historical_data (init t l) = empty_frame"
    by (simp add: init_def)
  have df2: "foldl pd_concat empty_frame frames = \<lparr>index = None, columns = frame_columns, rows = ?R\<rparr>"
    by (simp add: foldl_pd_concat_empty[OF cols fne] map_concat comp_def)
  have o_in: "restrict frame_columns r ''Open time'' = r ''Open time''" for r
    by (simp add: restrict_def frame_columns_def kline_columns_def)
  have c_in: "restrict frame_columns r ''Close time'' = r ''Close time''" for r
    by (simp add: restrict_def frame_columns_def kline_columns_def)
  have len: "length ts = length ?R"
    using arg_cong[OF ts, of length] by simp
  have o_mem: "''Open time'' \<in> set frame_columns" and c_mem: "''Close time'' \<in> set frame_columns"
    by (simp_all add: frame_columns_def kline_columns_def)
  have c3: "convert_column lib \<lparr>index = None, columns = frame_columns, rows = ?R\<rparr> ''Open time''
          = Inr \<lparr>index = None, columns = frame_columns,
                 rows = map (\<lambda>(r, t). r(''Open time'' := t)) (zip ?R ts)\<rparr>"
    using ts by (simp add: convert_column_def o_mem o_in comp_def convert_cells_map_Inr)
  have close3: "map (\<lambda>r. r ''Close time'') (map (\<lambda>(r, t). r(''Open time'' := t)) (zip ?R ts))
                  = map (\<lambda>r. r ''Close time'') (concat (map rows frames))"
    by (rule nth_equalityI) (simp_all add: len c_in)
  have c4: "\<exists>df4. convert_column lib \<lparr>index = None, columns = frame_columns,
                 rows = map (\<lambda>(r, t). r(''Open time'' := t)) (zip ?R ts)\<rparr> ''Close time'' = Inr df4
              \<and> columns df4 = frame_columns"
  proof -
    have "convert_cells (to_datetime lib)
            (map (\<lambda>r. r ''Close time'') (map (\<lambda>(r, t). r(''Open time'' := t)) (zip ?R ts))) = Inr ts'"
      unfolding close3 using ts' by (rule convert_cells_map_Inr)
    then show ?thesis
      by (simp add: convert_column_def c_mem del: map_map)
  qed
  then obtain df4 where
    c4: "convert_column lib \<lparr>index = None, columns = frame_columns,
                 rows = map (\<lambda>(r, t). r(''Open time'' := t)) (zip ?R ts)\<rparr> ''Close time'' = Inr df4" and
    cols4: "columns df4 = frame_columns"
    by blast
  have s5: "set_index df4 ''Open time'' =
              Inr \<lparr>index = Some (''Open time'', map (\<lambda>r. r ''Open time'') (rows df4)),
                   columns = filter (\<lambda>c. c \<noteq> ''Open time'') frame_columns, rows = rows df4\<rparr>"
    by (simp add: set_index_def cols4 o_mem)
  have d6: "\<exists>df6. drop_columns \<lparr>index = Some (''Open time'', map (\<lambda>r. r ''Open time'') (rows df4)),
                   columns = filter (\<lambda>c. c \<noteq> ''Open time'') frame_columns, rows = rows df4\<rparr>
               dropped_columns = Inr df6"
    by (simp add: drop_columns_def frame_columns_def kline_columns_def dropped_columns_def)
  then obtain df6 where
    d6: "drop_columns \<lparr>index = Some (''Open time'', map (\<lambda>r. r ''Open time'') (rows df4)),
                   columns = filter (\<lambda>c. c \<noteq> ''Open time'') frame_columns, rows = rows df4\<rparr>
               dropped_columns = Inr df6" ..
  show ?thesis
    by (simp add: scrape_def Let_def f sy get_historical_data_self g h0 df2 c3 c4 s5 d6)
qed

lemma scrape_empty_catalog:
  assumes "catalog net (init t l) = Inr []"
  shows "scrape sched net lib (init t l) files
           = (Inl (KeyError ''Open time''), (init t l)\<lparr>symbols_list := []\<rparr>, files)"
proof -
  from assms obtain response where
    f: "fetch net (symbols_url (init t l)) = Inr response" and
    sy: "symbols_of response = Inr []"
    by (auto simp: catalog_def split: sum.splits)
  have h0: "historical_data (init t l) = empty_frame"
    by (simp add: init_def)
  show ?thesis
    by (simp add: scrape_def Let_def f sy gather_def completion_order_def h0 convert_column_def
        empty_frame_def)
qed

section \<open>The limit in the request\<close>

lemma endpoint_klines_request:
  "endpoint self s = klines_request s (tf (params self)) (limit (params self))"
  by (simp add: endpoint_def klines_request_def)

lemma digits_set: "set (digits n) \<subseteq> set ''0123456789''"
proof (induction n rule: digits.induct)
  case (1 n)
  have d: "''0123456789'' ! k \<in> set ''0123456789''" if "k < 10" for k
    using that by (intro nth_mem) simp
  show ?case
  proof (cases "n < 10")
    case True
    then show ?thesis
      using d[of n] by (subst digits.simps) simp
  next
    case False
    have "n mod 10 < 10" by simp
    from d[OF this] "1.IH"[OF False] False show ?thesis
      by (subst digits.simps) simp
  qed
qed

lemma digits_not_Nil: "digits n \<noteq> []"
  by (subst digits.simps) simp

lemma str_int_no_equals: "CHR ''='' \<notin> set (str_int i)"
  using digits_set[of "nat i"] digits_set[of "nat (- i)"]
  by (auto simp: str_int_def)

lemma after_last:
  assumes "xs @ c # ds = ys @ c # es" and "c \<notin> set ds" and "c \<notin> set es"
  shows "ds = es"
proof -
  have "takeWhile (\<lambda>x. x \<noteq> c) (rev (xs @ c # ds)) = rev ds"
    using assms(2) by (auto simp: takeWhile_tail)
  moreover have "takeWhile (\<lambda>x. x \<noteq> c) (rev (ys @ c # es)) = rev es"
    using assms(3) by (auto simp: takeWhile_tail)
  ultimately have "rev ds = rev es"
    using assms(1) by simp
  then show ?thesis by simp
qed

lemma klines_request_limit:
  assumes "klines_request symbol interval lim = klines_request symbol' interval' lim'"
  shows "str_int lim = str_int lim'"
proof -
  let ?pre = "\<lambda>s i. ''https://api.binance.com/api/v3/klines?symbol='' @ s @ ''&interval='' @ i @
     ''&limit''"
  have "?pre symbol interval @ CHR ''='' # str_int lim = ?pre symbol' interval' @ CHR ''='' # str_int lim'"
    using assms by (simp add: klines_request_def)
  then show ?thesis
    by (rule after_last) (rule str_int_no_equals)+
qed

lemma below_ten:
  "(k::nat) < 10 \<Longrightarrow>
     k = 0 \<or> k = 1 \<or> k = 2 \<or> k = 3 \<or> k = 4 \<or> k = 5 \<or> k = 6 \<or> k = 7 \<or> k = 8 \<or> k = 9"
  by presburger

lemma digit_five: "k < 10 \<Longrightarrow> ''0123456789'' ! k = CHR ''5'' \<Longrightarrow> k = 5"
  using below_ten[of k] by auto

lemma str_int_5: "str_int i = ''5'' \<Longrightarrow> i = 5"
proof -
  assume a: "str_int i = ''5''"
  have pos: "\<not> i < 0"
    using a by (auto simp: str_int_def)
  with a have d: "digits (nat i) = ''5''"
    by (simp add: str_int_def)
  have small: "nat i < 10"
  proof (rule ccontr)
    assume "\<not> nat i < 10"
    then have "digits (nat i) = digits (nat i div 10) @ [''0123456789'' ! (nat i mod 10)]"
      by (subst digits.simps) simp
    with d digits_not_Nil[of "nat i div 10"] show False
      by (cases "digits (nat i div 10)") auto
  qed
  then have c: "''0123456789'' ! nat i = CHR ''5''"
    using d by (subst (asm) digits.simps) simp
  from small c have "nat i = 5"
    by (rule digit_five)
  with pos show ?thesis by simp
qed

section \<open>Evaluating the examples\<close>

lemmas run_defs =
  scrape_def fetch_def symbols_of_def select_symbol_def suffix_to_prefix gather_def
  completion_order_def get_historical_data_def endpoint_def str_int_def digits.simps
  DataFrame_def widest_def kline_columns_def setitem_def pd_concat_def empty_frame_def
  convert_column_def to_datetime_def row_of_def stored_def is_int64_def is_str_def pad_def
  restrict_def set_index_def drop_columns_def
  dropped_columns_def to_csv_def output_path_def init_def run_module_def catalog_def

lemmas example_defs =
  example_net_def example_info_def example_info_unreachable_def example_info_no_status_def
  example_pandas_def kline_def entry_def

lemma example_catalog:
  "catalog (example_net example_info t l) (init t l) = Inr [''BTCUSDT'', ''ETHUSDT'']"
  by (simp add: catalog_def fetch_def init_def example_net_def example_info_def symbols_of_def
      entry_def select_symbol_def suffix_to_prefix)

lemma example_candles:
  "fetch (example_net info t l) (endpoint (init t l) ''BTCUSDT'')
     = Inr (JArr (map JArr
         [[JInt 1000, JStr ''1.0'', JStr ''2.0'', JStr ''0.5'', JStr ''1.5'', JStr ''100'',
           JInt 60999, JStr ''150'', JInt 10, JStr ''50'', JStr ''75'', JStr ''0''],
          [JInt 2000, JStr ''1.0'', JStr ''2.0'', JStr ''0.5'', JStr ''1.5'', JStr ''100'',
           JInt 61999, JStr ''150'', JInt 10, JStr ''50'', JStr ''75'', JStr ''0'']]))"
  by (simp add: fetch_def example_net_def kline_def endpoint_def)

lemma example_run_outcome:
  "fst (scrape [] (example_net example_info ''1h'' 5) example_pandas (init ''1h'' 5) Map.empty) = Inr ()"
  by (simp add: run_defs example_defs)

lemma example_run_files:
  "snd (snd (scrape [] (example_net example_info ''1h'' 5) example_pandas (init ''1h'' 5) Map.empty))
     output_path
   = Some \<lparr>header = [''Open time'', ''Open'', ''High'', ''Low'', ''Close'', ''Volume'', ''Symbol''],
           lines =
             [[Timestamp 1000, Val (JStr ''1.0''), Val (JStr ''2.0''), Val (JStr ''0.5''),
               Val (JStr ''1.5''), Val (JStr ''100''), Val (JStr ''BTCUSDT'')],
              [Timestamp 2000, Val (JStr ''1.0''), Val (JStr ''2.0''), Val (JStr ''0.5''),
               Val (JStr ''1.5''), Val (JStr ''100''), Val (JStr ''BTCUSDT'')],
              [Timestamp 1000, Val (JStr ''1.0''), Val (JStr ''2.0''), Val (JStr ''0.5''),
               Val (JStr ''1.5''), Val (JStr ''100''), Val (JStr ''ETHUSDT'')],
              [Timestamp 2000, Val (JStr ''1.0''), Val (JStr ''2.0''), Val (JStr ''0.5''),
               Val (JStr ''1.5''), Val (JStr ''100''), Val (JStr ''ETHUSDT'')],
              [Timestamp 3000, Val (JStr ''1.0''), Val (JStr ''2.0''), Val (JStr ''0.5''),
               Val (JStr ''1.5''), Val (JStr ''100''), Val (JStr ''ETHUSDT'')]]\<rparr>"
  by (simp add: run_defs example_defs)

lemma example_run:
  "scrape [] (example_net example_info ''1h'' 5) example_pandas (init ''1h'' 5) Map.empty
     = (Inr (),
        fst (snd (scrape [] (example_net example_info ''1h'' 5) example_pandas (init ''1h'' 5) Map.empty)),
        snd (snd (scrape [] (example_net example_info ''1h'' 5) example_pandas (init ''1h'' 5) Map.empty)))"
  using example_run_outcome by (simp add: prod_eq_iff)

lemma example_faulty_catalog:
  "catalog example_net_faulty (init ''1h'' 5) = Inr [''BTCUSDT'', ''BNBUSDT'', ''ETHUSDT'']"
  by (simp add: catalog_def fetch_def init_def example_net_faulty_def example_info_unreachable_def
      symbols_of_def entry_def select_symbol_def suffix_to_prefix)

lemma example_faulty_fetch:
  "get_historical_data example_net_faulty example_pandas (init ''1h'' 5) ''BNBUSDT'' = Inl ClientError"
  by (simp add: get_historical_data_def fetch_def endpoint_def init_def example_net_faulty_def
      str_int_def digits.simps)

lemma example_honours_limit:
  "\<forall>symbol interval lim answer.
     example_net example_info ''1h'' 5 (klines_request symbol interval lim) = Inr (JArr (map JArr answer))
       \<longrightarrow> int (length answer) \<le> lim"
proof (intro allI impI)
  fix symbol interval lim answer
  let ?url = "klines_request symbol interval lim"
  assume a: "example_net example_info ''1h'' 5 ?url = Inr (JArr (map JArr answer))"
  have e: "endpoint (init ''1h'' 5) sym = klines_request sym ''1h'' 5" for sym
    by (simp add: endpoint_klines_request init_def)
  have five: "lim = 5" if "?url = klines_request sym ''1h'' 5" for sym
  proof -
    from klines_request_limit[OF that] have "str_int lim = ''5''"
      by (simp add: str_int_def digits.simps)
    then show ?thesis by (rule str_int_5)
  qed
  from a have "?url = klines_request ''BTCUSDT'' ''1h'' 5 \<and> length answer = 2 \<or>
               ?url = klines_request ''ETHUSDT'' ''1h'' 5 \<and> length answer = 3"
    unfolding example_net_def e example_info_def
    by (auto simp: kline_def split: if_splits dest!: arg_cong[of "map JArr answer" _ length])
  with five show "int (length answer) \<le> lim"
    by auto
qed

section \<open>The properties\<close>

text \<open>
  Claim C1, as amended. \<^verbatim>\<open>asyncio.gather\<close> is called without
  \<^verbatim>\<open>return_exceptions\<close>, so a failure of one candle request is not kept as a result
  of its symbol: it ends the run. When the request of some symbol of the catalog fails,
  \<^verbatim>\<open>scrape\<close> raises the error of the failed request that finishes first: every
  request that finishes before it has succeeded. The symbol list is the only thing the
  run has changed, and no file is written.
\<close>

theorem fetch_failure_aborts:
  assumes "catalog net self = Inr syms" and "s \<in> set syms"
    and "get_historical_data net lib self s = Inl e"
  shows "\<exists>i e'. i < length syms \<and>
           get_historical_data net lib self (syms ! (completion_order (length syms) sched ! i)) = Inl e' \<and>
           (\<forall>j < i. \<exists>df.
              get_historical_data net lib self (syms ! (completion_order (length syms) sched ! j)) = Inr df) \<and>
           scrape sched net lib self files = (Inl e', self\<lparr>symbols_list := syms\<rparr>, files)"
proof -
  let ?order = "completion_order (length syms) sched"
  let ?tasks = "map (get_historical_data net lib self) syms"
  from assms(1) obtain response where
    f: "fetch net (symbols_url self) = Inr response" and
    sy: "symbols_of response = Inr syms"
    by (auto simp: catalog_def split: sum.splits)
  have "Inl e \<in> set ?tasks"
    using assms(2,3) by force
  from gather_fails[OF this, of sched] obtain e' where
    g: "gather sched ?tasks = Inl e'"
    by blast
  from gather_Inl_first[OF g] obtain i where
    i: "i < length syms" and
    fails: "?tasks ! (?order ! i) = Inl e'" and
    before: "\<forall>j < i. \<exists>x. ?tasks ! (?order ! j) = Inr x"
    by auto
  have at: "?tasks ! (?order ! k) = get_historical_data net lib self (syms ! (?order ! k))"
    if "k < length syms" for k
    using completion_order_less[OF that, of sched] by simp
  have 1: "get_historical_data net lib self (syms ! (?order ! i)) = Inl e'"
    using fails at[OF i] by simp
  have 2: "\<forall>j < i. \<exists>df. get_historical_data net lib self (syms ! (?order ! j)) = Inr df"
  proof (intro allI impI)
    fix j assume j: "j < i"
    with i have "j < length syms" by simp
    note eq = at[OF this]
    from before j obtain x where "?tasks ! (?order ! j) = Inr x" by blast
    with eq show "\<exists>df. get_historical_data net lib self (syms ! (?order ! j)) = Inr df"
      by metis
  qed
  have 3: "scrape sched net lib self files = (Inl e', self\<lparr>symbols_list := syms\<rparr>, files)"
    by (simp add: scrape_def Let_def f sy get_historical_data_self g)
  from i 1 2 3 show ?thesis by blast
qed

text \<open>
  The exchange has no answer for BNBUSDT and a malformed one for ETHUSDT. When ETHUSDT
  finishes first the run ends with its \<^verbatim>\<open>ValueError\<close>; in the order of creation it ends
  with the connection error of BNBUSDT.
\<close>

theorem fetch_failure_aborts_witness:
  "catalog example_net_faulty (init ''1h'' 5) = Inr [''BTCUSDT'', ''BNBUSDT'', ''ETHUSDT''] \<and>
   ''BNBUSDT'' \<in> set [''BTCUSDT'', ''BNBUSDT'', ''ETHUSDT''] \<and>
   get_historical_data example_net_faulty example_pandas (init ''1h'' 5) ''BNBUSDT'' = Inl ClientError \<and>
   (\<exists>i e'. i < length [''BTCUSDT'', ''BNBUSDT'', ''ETHUSDT''] \<and>
      get_historical_data example_net_faulty example_pandas (init ''1h'' 5)
        ([''BTCUSDT'', ''BNBUSDT'', ''ETHUSDT''] ! (completion_order (length [''BTCUSDT'', ''BNBUSDT'', ''ETHUSDT'']) [2, 0, 1] ! i)) = Inl e' \<and>
      (\<forall>j < i. \<exists>df. get_historical_data example_net_faulty example_pandas (init ''1h'' 5)
        ([''BTCUSDT'', ''BNBUSDT'', ''ETHUSDT''] ! (completion_order (length [''BTCUSDT'', ''BNBUSDT'', ''ETHUSDT'']) [2, 0, 1] ! j)) = Inr df) \<and>
      scrape [2, 0, 1] example_net_faulty example_pandas (init ''1h'' 5) Map.empty
        = (Inl e', (init ''1h'' 5)\<lparr>symbols_list := [''BTCUSDT'', ''BNBUSDT'', ''ETHUSDT'']\<rparr>, Map.empty)) \<and>
   fst (scrape [2, 0, 1] example_net_faulty example_pandas (init ''1h'' 5) Map.empty) = Inl ValueError \<and>
   fst (scrape [0, 1, 2] example_net_faulty example_pandas (init ''1h'' 5) Map.empty) = Inl ClientError"
proof -
  have m: "''BNBUSDT'' \<in> set [''BTCUSDT'', ''BNBUSDT'', ''ETHUSDT'']"
    by simp
  have v: "fst (scrape [2, 0, 1] example_net_faulty example_pandas (init ''1h'' 5) Map.empty)
             = Inl ValueError"
    by (simp add: run_defs example_defs example_net_faulty_def)
  have c: "fst (scrape [0, 1, 2] example_net_faulty example_pandas (init ''1h'' 5) Map.empty)
             = Inl ClientError"
    by (simp add: run_defs example_defs example_net_faulty_def)
  from fetch_failure_aborts[OF example_faulty_catalog m example_faulty_fetch, of "[2, 0, 1]" Map.empty]
    example_faulty_catalog m example_faulty_fetch v c
  show ?thesis by blast
qed

text \<open>
  Claim C1 as stated: the run should complete and the file should hold the rows of
  BTCUSDT and ETHUSDT. It ends with the connection error and writes no file, although
  the request for BTCUSDT alone returns two rows.
\<close>

theorem fetch_failure_aborts_example:
  "fst (scrape [] (example_net example_info_unreachable ''1h'' 5) example_pandas (init ''1h'' 5)
          Map.empty) = Inl ClientError \<and>
   snd (snd (scrape [] (example_net example_info_unreachable ''1h'' 5) example_pandas (init ''1h'' 5)
          Map.empty)) output_path = None \<and>
   map_sum id (\<lambda>df. length (rows df))
     (get_historical_data (example_net example_info_unreachable ''1h'' 5) example_pandas
        (init ''1h'' 5) ''BTCUSDT'') = Inr 2"
  by (simp add: run_defs example_defs)

text \<open>
  Claim C2, as amended. Neither \<^verbatim>\<open>__init__\<close> nor the module checks the timeframe
  or the limit. For every timeframe and limit, given on the command line or typed at
  the prompt, the scraper holds them as given, they go as they are into the URL of each
  candle request, and the run is the run of \<^verbatim>\<open>scrape\<close>: a failure of the metadata
  request is its error; an empty catalog ends it with \<^verbatim>\<open>KeyError\<close> for the label
  Open time and no file; and it completes exactly when the catalog is not empty, every
  candle request returns a table and both time columns convert.
\<close>

theorem no_parameter_validation:
  assumes "(case args_limit of None \<Rightarrow> typed_limit | Some v \<Rightarrow> Inr v) = Inr l"
    and "(case args_tf of None \<Rightarrow> typed_tf | Some v \<Rightarrow> Inr v) = Inr t"
  shows "params (init t l) = \<lparr>tf = t, limit = l\<rparr> \<and>
   endpoint (init t l) s
     = ''https://api.binance.com/api/v3/klines?symbol='' @ s @ ''&interval='' @ t @
       ''&limit='' @ str_int l \<and>
   run_module args_limit args_tf typed_limit typed_tf sched net lib files
     = (fst (scrape sched net lib (init t l) files), snd (snd (scrape sched net lib (init t l) files))) \<and>
   (fetch net (symbols_url (init t l)) = Inl e \<longrightarrow>
      run_module args_limit args_tf typed_limit typed_tf sched net lib files = (Inl e, files)) \<and>
   (catalog net (init t l) = Inr [] \<longrightarrow>
      run_module args_limit args_tf typed_limit typed_tf sched net lib files
        = (Inl (KeyError ''Open time''), files)) \<and>
   (fst (run_module args_limit args_tf typed_limit typed_tf sched net lib files) = Inr () \<longleftrightarrow>
      (\<exists>syms frames ts ts'.
         catalog net (init t l) = Inr syms \<and> syms \<noteq> [] \<and>
         map (get_historical_data net lib (init t l)) syms = map Inr frames \<and>
         map (to_datetime lib) (map (\<lambda>r. r ''Open time'') (concat (map rows frames))) = map Inr ts \<and>
         map (to_datetime lib) (map (\<lambda>r. r ''Close time'') (concat (map rows frames))) = map Inr ts'))"
proof -
  let ?run = "run_module args_limit args_tf typed_limit typed_tf sched net lib files"
  let ?scrape = "scrape sched net lib (init t l) files"
  have p: "params (init t l) = \<lparr>tf = t, limit = l\<rparr>"
    by (simp add: init_def)
  have u: "endpoint (init t l) s
     = ''https://api.binance.com/api/v3/klines?symbol='' @ s @ ''&interval='' @ t @
       ''&limit='' @ str_int l"
    by (simp add: endpoint_def init_def)
  have run: "?run = (fst ?scrape, snd (snd ?scrape))"
    using assms by (simp add: run_module_def split: prod.splits)
  have down: "?run = (Inl e, files)" if "fetch net (symbols_url (init t l)) = Inl e"
  proof -
    from that have "catalog net (init t l) = Inl e"
      by (simp add: catalog_def)
    then show ?thesis
      by (simp add: run scrape_catalog_fails)
  qed
  have none: "?run = (Inl (KeyError ''Open time''), files)" if "catalog net (init t l) = Inr []"
    by (simp add: run scrape_empty_catalog[OF that])
  have compl: "fst ?run = Inr () \<longleftrightarrow>
      (\<exists>syms frames ts ts'.
         catalog net (init t l) = Inr syms \<and> syms \<noteq> [] \<and>
         map (get_historical_data net lib (init t l)) syms = map Inr frames \<and>
         map (to_datetime lib) (map (\<lambda>r. r ''Open time'') (concat (map rows frames))) = map Inr ts \<and>
         map (to_datetime lib) (map (\<lambda>r. r ''Close time'') (concat (map rows frames))) = map Inr ts')"
    (is "?l \<longleftrightarrow> ?r")
  proof
    assume ?l
    then have "?scrape = (Inr (), fst (snd ?scrape), snd (snd ?scrape))"
      by (simp add: run prod_eq_iff)
    from scrape_success[OF this] obtain frames ts ts' where
      c: "catalog net (init t l) = Inr (symbols_list (fst (snd ?scrape)))" and
      a: "map (get_historical_data net lib (init t l)) (symbols_list (fst (snd ?scrape))) = map Inr frames" and
      ne: "frames \<noteq> []" and
      o: "map (to_datetime lib) (map (\<lambda>r. r ''Open time'') (concat (map rows frames))) = map Inr ts" and
      cl: "map (to_datetime lib) (map (\<lambda>r. r ''Close time'') (concat (map rows frames))) = map Inr ts'"
      by blast
    from a ne have "symbols_list (fst (snd ?scrape)) \<noteq> []"
      by auto
    with c a o cl show ?r by blast
  next
    assume ?r
    then obtain syms frames ts ts' where
      "catalog net (init t l) = Inr syms" "syms \<noteq> []"
      "map (get_historical_data net lib (init t l)) syms = map Inr frames"
      "map (to_datetime lib) (map (\<lambda>r. r ''Open time'') (concat (map rows frames))) = map Inr ts"
      "map (to_datetime lib) (map (\<lambda>r. r ''Close time'') (concat (map rows frames))) = map Inr ts'"
      by blast
    then have "fst ?scrape = Inr ()"
      by (rule scrape_completes)
    then show ?l by (simp add: run)
  qed
  from p u run down none compl show ?thesis by blast
qed

text \<open>
  The timeframe 7x and the limit 0, both typed at the prompt, against an exchange that
  is down, one with an empty catalog and one that answers.
\<close>

theorem no_parameter_validation_witness:
  "(case None of None \<Rightarrow> Inr 0 | Some v \<Rightarrow> Inr v) = (Inr 0 :: error + int) \<and>
   (case None of None \<Rightarrow> Inr ''7x'' | Some v \<Rightarrow> Inr v) = (Inr ''7x'' :: error + string) \<and>
   endpoint (init ''7x'' 0) ''BTCUSDT''
     = ''https://api.binance.com/api/v3/klines?symbol=BTCUSDT&interval=7x&limit=0'' \<and>
   run_module None None (Inr 0) (Inr ''7x'') [] (\<lambda>url. Inl ClientError) example_pandas Map.empty
     = (Inl ClientError, Map.empty) \<and>
   run_module None None (Inr 0) (Inr ''7x'') [] (example_net (JObj [(''symbols'', JArr [])]) ''7x'' 0)
     example_pandas Map.empty = (Inl (KeyError ''Open time''), Map.empty) \<and>
   fst (run_module None None (Inr 0) (Inr ''7x'') [] (example_net example_info ''7x'' 0)
     example_pandas Map.empty) = Inr ()"
proof -
  let ?down = "\<lambda>url::string. (Inl ClientError :: error + json)"
  let ?empty = "example_net (JObj [(''symbols'', JArr [])]) ''7x'' 0"
  let ?net = "example_net example_info ''7x'' 0"
  have hl: "(case None of None \<Rightarrow> Inr 0 | Some v \<Rightarrow> Inr v) = (Inr 0 :: error + int)"
    by simp
  have ht: "(case None of None \<Rightarrow> Inr ''7x'' | Some v \<Rightarrow> Inr v) = (Inr ''7x'' :: error + string)"
    by simp
  note inst = no_parameter_validation[OF hl ht]
  have 1: "endpoint (init ''7x'' 0) ''BTCUSDT''
     = ''https://api.binance.com/api/v3/klines?symbol=BTCUSDT&interval=7x&limit=0''"
  proof -
    from inst[of "''BTCUSDT''"]
    have "endpoint (init ''7x'' 0) ''BTCUSDT''
            = ''https://api.binance.com/api/v3/klines?symbol='' @ ''BTCUSDT'' @ ''&interval='' @ ''7x'' @
              ''&limit='' @ str_int 0"
      by blast
    then show ?thesis
      by (simp add: str_int_def digits.simps)
  qed
  have 2: "run_module None None (Inr 0) (Inr ''7x'') [] ?down example_pandas Map.empty
             = (Inl ClientError, Map.empty)"
  proof -
    have "fetch ?down (symbols_url (init ''7x'' 0)) = Inl ClientError"
      by (simp add: fetch_def)
    with inst[where net = ?down and e = ClientError and sched = "[]" and lib = example_pandas
        and files = Map.empty]
    show ?thesis by blast
  qed
  have 3: "run_module None None (Inr 0) (Inr ''7x'') [] ?empty example_pandas Map.empty
             = (Inl (KeyError ''Open time''), Map.empty)"
  proof -
    have "catalog ?empty (init ''7x'' 0) = Inr []"
      by (simp add: catalog_def fetch_def init_def example_net_def symbols_of_def)
    with inst[where net = ?empty and sched = "[]" and lib = example_pandas and files = Map.empty]
    show ?thesis by blast
  qed
  have 4: "fst (run_module None None (Inr 0) (Inr ''7x'') [] ?net example_pandas Map.empty) = Inr ()"
  proof -
    obtain f1 where f1: "get_historical_data ?net example_pandas (init ''7x'' 0) ''BTCUSDT'' = Inr f1"
      "map (\<lambda>r. r ''Open time'') (rows f1) = [Val (JInt 1000), Val (JInt 2000)]"
      "map (\<lambda>r. r ''Close time'') (rows f1) = [Val (JInt 60999), Val (JInt 61999)]"
      by (simp add: run_defs example_defs)
    obtain f2 where f2: "get_historical_data ?net example_pandas (init ''7x'' 0) ''ETHUSDT'' = Inr f2"
      "map (\<lambda>r. r ''Open time'') (rows f2) = [Val (JInt 1000), Val (JInt 2000), Val (JInt 3000)]"
      "map (\<lambda>r. r ''Close time'') (rows f2) = [Val (JInt 60999), Val (JInt 61999), Val (JInt 62999)]"
      by (simp add: run_defs example_defs)
    have a: "map (get_historical_data ?net example_pandas (init ''7x'' 0)) [''BTCUSDT'', ''ETHUSDT'']
               = map Inr [f1, f2]"
      by (simp add: f1 f2)
    have o: "map (to_datetime example_pandas)
               (map (\<lambda>r. r ''Open time'') (concat (map rows [f1, f2])))
             = map Inr [Timestamp 1000, Timestamp 2000, Timestamp 1000, Timestamp 2000, Timestamp 3000]"
      by (simp add: f1 f2 to_datetime_def)
    have c: "map (to_datetime example_pandas)
               (map (\<lambda>r. r ''Close time'') (concat (map rows [f1, f2])))
             = map Inr [Timestamp 60999, Timestamp 61999, Timestamp 60999, Timestamp 61999,
                        Timestamp 62999]"
      by (simp add: f1 f2 to_datetime_def)
    have ne: "[''BTCUSDT'', ''ETHUSDT''] \<noteq> []"
      by simp
    from inst[where net = ?net and sched = "[]" and lib = example_pandas and files = Map.empty]
      example_catalog[of "''7x''" 0] ne a o c
    show ?thesis by blast
  qed
  from hl ht 1 2 3 4 show ?thesis by blast
qed

text \<open>
  Claim C2 as stated: \<^verbatim>\<open>InvalidParameter\<close> before any request. With the timeframe
  7x and the limit 0, from the command line or from the prompt, the run completes; the
  file it writes is shown for the command line.
\<close>

theorem no_parameter_validation_example:
  "run_module (Some 0) (Some ''7x'') (Inl ValueError) (Inr []) [] (example_net example_info ''7x'' 0)
     example_pandas Map.empty
   = (Inr (),
      [output_path \<mapsto>
         \<lparr>header = [''Open time'', ''Open'', ''High'', ''Low'', ''Close'', ''Volume'', ''Symbol''],
           lines =
             [[Timestamp 1000, Val (JStr ''1.0''), Val (JStr ''2.0''), Val (JStr ''0.5''),
               Val (JStr ''1.5''), Val (JStr ''100''), Val (JStr ''BTCUSDT'')],
              [Timestamp 2000, Val (JStr ''1.0''), Val (JStr ''2.0''), Val (JStr ''0.5''),
               Val (JStr ''1.5''), Val (JStr ''100''), Val (JStr ''BTCUSDT'')],
              [Timestamp 1000, Val (JStr ''1.0''), Val (JStr ''2.0''), Val (JStr ''0.5''),
               Val (JStr ''1.5''), Val (JStr ''100''), Val (JStr ''ETHUSDT'')],
              [Timestamp 2000, Val (JStr ''1.0''), Val (JStr ''2.0''), Val (JStr ''0.5''),
               Val (JStr ''1.5''), Val (JStr ''100''), Val (JStr ''ETHUSDT'')],
              [Timestamp 3000, Val (JStr ''1.0''), Val (JStr ''2.0''), Val (JStr ''0.5''),
               Val (JStr ''1.5''), Val (JStr ''100''), Val (JStr ''ETHUSDT'')]]\<rparr>]) \<and>
   fst (run_module None None (Inr 0) (Inr ''7x'') [] (example_net example_info ''7x'' 0)
     example_pandas Map.empty) = Inr ()"
  by (simp add: run_defs example_defs)

text \<open>
  Claim C3. When a run of a fresh scraper completes, every candle request of the catalog
  has succeeded, the written table has as many lines as the tables of the requests have
  rows together, and every line carries, under the label Symbol, one symbol of the
  catalog the run took at its start. Nothing is added and nothing is lost in the merge.
\<close>

theorem dataset_rows_accounted:
  assumes "scrape sched net lib (init t l) files = (Inr (), self', files')"
  shows "\<exists>frames out.
           catalog net (init t l) = Inr (symbols_list self') \<and>
           map (get_historical_data net lib (init t l)) (symbols_list self') = map Inr frames \<and>
           files' output_path = Some out \<and>
           length (lines out) = sum_list (map (\<lambda>f. length (rows f)) frames) \<and>
           header out ! 6 = ''Symbol'' \<and>
           (\<forall>line \<in> set (lines out).
              length line = 7 \<and> (\<exists>s \<in> set (symbols_list self'). line ! 6 = Val (JStr s)))"
proof -
  from assms obtain frames ts ts' where
    cat: "catalog net (init t l) = Inr (symbols_list self')" and
    all: "map (get_historical_data net lib (init t l)) (symbols_list self') = map Inr frames" and
    ts: "map (to_datetime lib) (map (\<lambda>r. r ''Open time'') (concat (map rows frames))) = map Inr ts" and
    w: "files' = files(output_path \<mapsto>
        \<lparr>header = ''Open time'' # output_columns,
         lines = map (\<lambda>(t, r). t # map r output_columns) (zip ts (concat (map rows frames)))\<rparr>)"
    by (rule scrape_success)
  let ?R = "concat (map rows frames)"
  let ?out = "\<lparr>header = ''Open time'' # output_columns,
         lines = map (\<lambda>(t, r). t # map r output_columns) (zip ts ?R)\<rparr>"
  have len: "length ts = length ?R"
    using arg_cong[OF ts, of length] by simp
  have count: "length (lines ?out) = sum_list (map (\<lambda>f. length (rows f)) frames)"
    by (simp add: len length_concat comp_def)
  have tagged: "\<exists>s \<in> set (symbols_list self'). r ''Symbol'' = Val (JStr s)" if "r \<in> set ?R" for r
  proof -
    from that obtain f where f: "f \<in> set frames" and r: "r \<in> set (rows f)" by auto
    from frame_of_symbol[OF all f] obtain s where
      s: "s \<in> set (symbols_list self')" and h: "get_historical_data net lib (init t l) s = Inr f"
      by blast
    from get_historical_data_Inr(3)[OF h] r s show ?thesis by blast
  qed
  have rows_ok: "\<forall>line \<in> set (lines ?out).
              length line = 7 \<and> (\<exists>s \<in> set (symbols_list self'). line ! 6 = Val (JStr s))"
  proof
    fix line assume "line \<in> set (lines ?out)"
    then obtain t r where tr: "(t, r) \<in> set (zip ts ?R)" and line: "line = t # map r output_columns"
      by auto
    from tr have "r \<in> set ?R" by (rule set_zip_rightD)
    from tagged[OF this] line show
      "length line = 7 \<and> (\<exists>s \<in> set (symbols_list self'). line ! 6 = Val (JStr s))"
      by (simp add: output_columns_def)
  qed
  have hdr: "header ?out ! 6 = ''Symbol''"
    by (simp add: output_columns_def)
  have "files' output_path = Some ?out"
    by (simp add: w)
  with cat all count hdr rows_ok show ?thesis by blast
qed

text \<open>
  Two candles for BTCUSDT and three for ETHUSDT: five lines.
\<close>

theorem dataset_rows_accounted_witness:
  "fst (scrape [] (example_net example_info ''1h'' 5) example_pandas (init ''1h'' 5) Map.empty) = Inr () \<and>
   (\<exists>frames out.
      symbols_list (fst (snd (scrape [] (example_net example_info ''1h'' 5) example_pandas
        (init ''1h'' 5) Map.empty))) = [''BTCUSDT'', ''ETHUSDT''] \<and>
      map (get_historical_data (example_net example_info ''1h'' 5) example_pandas (init ''1h'' 5))
        [''BTCUSDT'', ''ETHUSDT''] = map Inr frames \<and>
      snd (snd (scrape [] (example_net example_info ''1h'' 5) example_pandas (init ''1h'' 5) Map.empty))
        output_path = Some out \<and>
      length (lines out) = sum_list (map (\<lambda>f. length (rows f)) frames) \<and>
      length (lines out) = 5)"
proof -
  let ?run = "scrape [] (example_net example_info ''1h'' 5) example_pandas (init ''1h'' 5) Map.empty"
  from dataset_rows_accounted[OF example_run] obtain frames out where
    cat: "catalog (example_net example_info ''1h'' 5) (init ''1h'' 5) = Inr (symbols_list (fst (snd ?run)))" and
    all: "map (get_historical_data (example_net example_info ''1h'' 5) example_pandas (init ''1h'' 5))
            (symbols_list (fst (snd ?run))) = map Inr frames" and
    out: "snd (snd ?run) output_path = Some out" and
    n: "length (lines out) = sum_list (map (\<lambda>f. length (rows f)) frames)"
    by blast
  have syms: "symbols_list (fst (snd ?run)) = [''BTCUSDT'', ''ETHUSDT'']"
    using cat by (simp add: example_catalog)
  have five: "length (lines out) = 5"
    using out by (auto simp: example_run_files)
  from example_run_outcome syms all[unfolded syms] out n five show ?thesis
    by blast
qed

text \<open>
  Claim C4, as amended. The written table has the header Open time, Open, High, Low,
  Close, Volume, Symbol, in that order (\<^verbatim>\<open>df['Symbol'] = symbol\<close> adds the label last,
  and nothing reorders the labels), and one line per row of the merged tables: the
  converted open time, then the cells under the six labels. Both time columns are
  converted (an integer count of milliseconds becomes a timestamp); the close time and
  the five other auxiliary columns are gone; the open time is the index.
\<close>

theorem written_table_layout:
  assumes "scrape sched net lib (init t l) files = (Inr (), self', files')"
  shows "\<exists>frames ts ts'.
           map (get_historical_data net lib (init t l)) (symbols_list self') = map Inr frames \<and>
           map (to_datetime lib) (map (\<lambda>r. r ''Open time'') (concat (map rows frames))) = map Inr ts \<and>
           map (to_datetime lib) (map (\<lambda>r. r ''Close time'') (concat (map rows frames))) = map Inr ts' \<and>
           files' = files(output_path \<mapsto>
             \<lparr>header = [''Open time'', ''Open'', ''High'', ''Low'', ''Close'', ''Volume'', ''Symbol''],
              lines = map (\<lambda>(t, r). [t, r ''Open'', r ''High'', r ''Low'', r ''Close'', r ''Volume'',
                                      r ''Symbol''])
                        (zip ts (concat (map rows frames)))\<rparr>) \<and>
           (\<forall>n. \<bar>n\<bar> \<le> 9223372036854 \<longrightarrow> to_datetime lib (Val (JInt n)) = Inr (Timestamp n))"
proof -
  from assms obtain frames ts ts' where
    all: "map (get_historical_data net lib (init t l)) (symbols_list self') = map Inr frames" and
    ts: "map (to_datetime lib) (map (\<lambda>r. r ''Open time'') (concat (map rows frames))) = map Inr ts" and
    ts': "map (to_datetime lib) (map (\<lambda>r. r ''Close time'') (concat (map rows frames))) = map Inr ts'" and
    w: "files' = files(output_path \<mapsto>
        \<lparr>header = ''Open time'' # output_columns,
         lines = map (\<lambda>(t, r). t # map r output_columns) (zip ts (concat (map rows frames)))\<rparr>)"
    by (rule scrape_success)
  have conv: "\<forall>n. \<bar>n\<bar> \<le> 9223372036854 \<longrightarrow> to_datetime lib (Val (JInt n)) = Inr (Timestamp n)"
    by (simp add: to_datetime_def)
  have "files' = files(output_path \<mapsto>
             \<lparr>header = [''Open time'', ''Open'', ''High'', ''Low'', ''Close'', ''Volume'', ''Symbol''],
              lines = map (\<lambda>(t, r). [t, r ''Open'', r ''High'', r ''Low'', r ''Close'', r ''Volume'',
                                      r ''Symbol''])
                        (zip ts (concat (map rows frames)))\<rparr>)"
    using w by (simp add: output_columns_def)
  with all ts ts' conv show ?thesis by blast
qed

text \<open>
  The example run.
\<close>

theorem written_table_layout_witness:
  "fst (scrape [] (example_net example_info ''1h'' 5) example_pandas (init ''1h'' 5) Map.empty) = Inr () \<and>
   (\<exists>frames ts ts'.
      map (get_historical_data (example_net example_info ''1h'' 5) example_pandas (init ''1h'' 5))
        (symbols_list (fst (snd (scrape [] (example_net example_info ''1h'' 5) example_pandas
           (init ''1h'' 5) Map.empty)))) = map Inr frames \<and>
      map (to_datetime example_pandas) (map (\<lambda>r. r ''Open time'') (concat (map rows frames)))
        = map Inr ts \<and>
      map (to_datetime example_pandas) (map (\<lambda>r. r ''Close time'') (concat (map rows frames)))
        = map Inr ts' \<and>
      snd (snd (scrape [] (example_net example_info ''1h'' 5) example_pandas (init ''1h'' 5) Map.empty))
        = Map.empty(output_path \<mapsto>
             \<lparr>header = [''Open time'', ''Open'', ''High'', ''Low'', ''Close'', ''Volume'', ''Symbol''],
              lines = map (\<lambda>(t, r). [t, r ''Open'', r ''High'', r ''Low'', r ''Close'', r ''Volume'',
                                      r ''Symbol''])
                        (zip ts (concat (map rows frames)))\<rparr>)) \<and>
   to_datetime example_pandas (Val (JInt 1000)) = Inr (Timestamp 1000)"
proof -
  from written_table_layout[OF example_run] obtain frames ts ts' where
    "map (get_historical_data (example_net example_info ''1h'' 5) example_pandas (init ''1h'' 5))
        (symbols_list (fst (snd (scrape [] (example_net example_info ''1h'' 5) example_pandas
           (init ''1h'' 5) Map.empty)))) = map Inr frames"
    "map (to_datetime example_pandas) (map (\<lambda>r. r ''Open time'') (concat (map rows frames)))
        = map Inr ts"
    "map (to_datetime example_pandas) (map (\<lambda>r. r ''Close time'') (concat (map rows frames)))
        = map Inr ts'"
    "snd (snd (scrape [] (example_net example_info ''1h'' 5) example_pandas (init ''1h'' 5) Map.empty))
        = Map.empty(output_path \<mapsto>
             \<lparr>header = [''Open time'', ''Open'', ''High'', ''Low'', ''Close'', ''Volume'', ''Symbol''],
              lines = map (\<lambda>(t, r). [t, r ''Open'', r ''High'', r ''Low'', r ''Close'', r ''Volume'',
                                      r ''Symbol''])
                        (zip ts (concat (map rows frames)))\<rparr>)"
    and conv: "\<forall>n. \<bar>n\<bar> \<le> 9223372036854 \<longrightarrow> to_datetime example_pandas (Val (JInt n)) = Inr (Timestamp n)"
    by blast
  moreover from conv have "to_datetime example_pandas (Val (JInt 1000)) = Inr (Timestamp 1000)"
    by simp
  ultimately show ?thesis using example_run_outcome by blast
qed

text \<open>
  Claim C4 as stated puts Symbol second. The file of the example run has it last, in
  the header and in every line.
\<close>

theorem written_table_layout_example:
  "snd (snd (scrape [] (example_net example_info ''1h'' 5) example_pandas (init ''1h'' 5) Map.empty))
     output_path
   = Some \<lparr>header = [''Open time'', ''Open'', ''High'', ''Low'', ''Close'', ''Volume'', ''Symbol''],
           lines =
             [[Timestamp 1000, Val (JStr ''1.0''), Val (JStr ''2.0''), Val (JStr ''0.5''),
               Val (JStr ''1.5''), Val (JStr ''100''), Val (JStr ''BTCUSDT'')],
              [Timestamp 2000, Val (JStr ''1.0''), Val (JStr ''2.0''), Val (JStr ''0.5''),
               Val (JStr ''1.5''), Val (JStr ''100''), Val (JStr ''BTCUSDT'')],
              [Timestamp 1000, Val (JStr ''1.0''), Val (JStr ''2.0''), Val (JStr ''0.5''),
               Val (JStr ''1.5''), Val (JStr ''100''), Val (JStr ''ETHUSDT'')],
              [Timestamp 2000, Val (JStr ''1.0''), Val (JStr ''2.0''), Val (JStr ''0.5''),
               Val (JStr ''1.5''), Val (JStr ''100''), Val (JStr ''ETHUSDT'')],
              [Timestamp 3000, Val (JStr ''1.0''), Val (JStr ''2.0''), Val (JStr ''0.5''),
               Val (JStr ''1.5''), Val (JStr ''100''), Val (JStr ''ETHUSDT'')]]\<rparr> \<and>
   [''Open time'', ''Open'', ''High'', ''Low'', ''Close'', ''Volume'', ''Symbol'']
     \<noteq> [''Open time'', ''Symbol'', ''Open'', ''High'', ''Low'', ''Close'', ''Volume'']"
  by (simp add: example_run_files)

text \<open>
  Claim C5. When the catalog succeeds, the symbols it returns are exactly the identifiers
  of the entries of the metadata answer whose identifier ends with USDT and whose status
  is TRADING, in the order of the answer: every symbol returned comes from such an
  entry, and every such entry has its identifier returned. This is the list
  \<^verbatim>\<open>scrape\<close> stores in \<^verbatim>\<open>symbols_list\<close>.
\<close>

theorem catalog_exact:
  assumes "catalog net self = Inr syms"
  shows "\<exists>response symbols_data entries.
           fetch net (symbols_url self) = Inr response \<and>
           getitem response ''symbols'' = Inr symbols_data \<and>
           iter symbols_data = Inr entries \<and>
           syms = map (\<lambda>e. the (symbol_name e)) (filter is_active_usdt entries) \<and>
           (\<forall>s \<in> set syms. \<exists>e \<in> set entries. is_active_usdt e \<and> symbol_name e = Some s) \<and>
           (\<forall>e \<in> set entries. is_active_usdt e \<longrightarrow> (\<exists>s \<in> set syms. symbol_name e = Some s)) \<and>
           symbols_list (fst (snd (scrape sched net lib self files))) = syms"
proof -
  from assms obtain response symbols_data entries where
    f: "fetch net (symbols_url self) = Inr response" and
    g: "getitem response ''symbols'' = Inr symbols_data" and
    i: "iter symbols_data = Inr entries" and
    c: "comprehension entries = Inr syms"
    by (auto simp: catalog_def symbols_of_def split: sum.splits)
  have eq: "syms = map (\<lambda>e. the (symbol_name e)) (filter is_active_usdt entries)"
    using c by (rule comprehension_Inr)
  have sound: "\<forall>s \<in> set syms. \<exists>e \<in> set entries. is_active_usdt e \<and> symbol_name e = Some s"
    unfolding eq using active_named by fastforce
  have complete: "\<forall>e \<in> set entries. is_active_usdt e \<longrightarrow> (\<exists>s \<in> set syms. symbol_name e = Some s)"
  proof (intro ballI impI)
    fix e assume e: "e \<in> set entries" and a: "is_active_usdt e"
    from active_named[OF a] obtain s where s: "symbol_name e = Some s" ..
    have "s \<in> set (map (\<lambda>e. the (symbol_name e)) (filter is_active_usdt entries))"
      using e a s by force
    with s show "\<exists>s \<in> set syms. symbol_name e = Some s"
      by (auto simp: eq)
  qed
  from f g i eq sound complete scrape_symbols_list[OF assms] show ?thesis
    by blast
qed

text \<open>
  The example catalog has four entries; ETHBTC is not quoted in USDT and LUNAUSDT is not
  trading.
\<close>

theorem catalog_exact_witness:
  "catalog (example_net example_info ''1h'' 5) (init ''1h'' 5) = Inr [''BTCUSDT'', ''ETHUSDT''] \<and>
   (\<exists>response symbols_data entries.
      fetch (example_net example_info ''1h'' 5) (symbols_url (init ''1h'' 5)) = Inr response \<and>
      getitem response ''symbols'' = Inr symbols_data \<and>
      iter symbols_data = Inr entries \<and>
      [''BTCUSDT'', ''ETHUSDT''] = map (\<lambda>e. the (symbol_name e)) (filter is_active_usdt entries) \<and>
      (\<forall>s \<in> set [''BTCUSDT'', ''ETHUSDT''].
         \<exists>e \<in> set entries. is_active_usdt e \<and> symbol_name e = Some s) \<and>
      (\<forall>e \<in> set entries. is_active_usdt e \<longrightarrow>
         (\<exists>s \<in> set [''BTCUSDT'', ''ETHUSDT'']. symbol_name e = Some s)) \<and>
      symbols_list (fst (snd (scrape [] (example_net example_info ''1h'' 5) example_pandas
        (init ''1h'' 5) Map.empty))) = [''BTCUSDT'', ''ETHUSDT''])"
  using catalog_exact[OF example_catalog[of "''1h''" 5], of "[]" example_pandas Map.empty]
    example_catalog[of "''1h''" 5]
  by blast

text \<open>
  Claim C6. A run that fails before the candle requests writes nothing: when the catalog
  fails (the metadata request fails, or its answer does not have the expected shape),
  \<^verbatim>\<open>scrape\<close> ends with that error and the files are as they were; so does the whole
  program, also when a prompt fails before a scraper exists. The only statement that
  touches a file is the last one of \<^verbatim>\<open>scrape\<close>.
\<close>

theorem fatal_failure_writes_nothing:
  "(catalog net self = Inl e \<longrightarrow> scrape sched net lib self files = (Inl e, self, files)) \<and>
   (catalog net (init t l) = Inl e \<longrightarrow>
      run_module (Some l) (Some t) typed_limit typed_tf sched net lib files = (Inl e, files)) \<and>
   run_module None args_tf (Inl e) typed_tf sched net lib files = (Inl e, files) \<and>
   run_module (Some l) None typed_limit (Inl e) sched net lib files = (Inl e, files)"
  by (simp add: scrape_catalog_fails run_module_def)

text \<open>
  The metadata answer is a list instead of a dict: the run ends with \<^verbatim>\<open>TypeError\<close> and
  the output file that existed before is untouched.
\<close>

theorem fatal_failure_writes_nothing_witness:
  "catalog (example_net (JArr []) ''1h'' 5) (init ''1h'' 5) = Inl TypeError \<and>
   run_module (Some 5) (Some ''1h'') (Inl ValueError) (Inr []) [] (example_net (JArr []) ''1h'' 5)
     example_pandas [output_path \<mapsto> \<lparr>header = [''Open time''], lines = []\<rparr>]
   = (Inl TypeError, [output_path \<mapsto> \<lparr>header = [''Open time''], lines = []\<rparr>])"
proof -
  have c: "catalog (example_net (JArr []) ''1h'' 5) (init ''1h'' 5) = Inl TypeError"
    by (simp add: catalog_def fetch_def init_def example_net_def symbols_of_def)
  from fatal_failure_writes_nothing[of "example_net (JArr []) ''1h'' 5" "init ''1h'' 5" TypeError]
  show ?thesis using c by blast
qed

text \<open>
  Claim C7. The exchange honours the limit it is sent when every list of candles it
  gives in answer to a request for at most \<open>lim\<close> candles has at most \<open>lim\<close>
  elements. Against such an exchange, a call of \<^verbatim>\<open>get_historical_data\<close> that returns a
  table for a list-of-lists answer returns one row per candle and at most as many rows
  as the limit of the scraper: the limit reaches the exchange through the URL the call
  builds.
\<close>

theorem series_within_limit:
  assumes "\<forall>symbol interval lim answer.
             net (klines_request symbol interval lim) = Inr (JArr (map JArr answer))
               \<longrightarrow> int (length answer) \<le> lim"
    and "fetch net (endpoint self s) = Inr (JArr (map JArr candles))"
    and "get_historical_data net lib self s = Inr df"
  shows "length (rows df) = length candles \<and> int (length (rows df)) \<le> limit (params self)"
proof -
  have "net (klines_request s (tf (params self)) (limit (params self))) = Inr (JArr (map JArr candles))"
    using assms(2) by (simp add: fetch_def endpoint_klines_request)
  with assms(1) have "int (length candles) \<le> limit (params self)"
    by blast
  moreover have "length (rows df) = length candles"
    using assms(3) unfolding get_historical_data_candles[OF assms(2)]
    by (auto split: if_splits)
  ultimately show ?thesis by simp
qed

text \<open>
  The example exchange honours the limit (\<open>example_honours_limit\<close>): it has two and
  three candles and answers only requests for at most five. Two rows for BTCUSDT.
\<close>

theorem series_within_limit_witness:
  "limit (params (init ''1h'' 5)) = 5 \<and>
   (\<exists>df. get_historical_data (example_net example_info ''1h'' 5) example_pandas (init ''1h'' 5) ''BTCUSDT''
           = Inr df \<and>
         length (rows df) = 2 \<and> int (length (rows df)) \<le> limit (params (init ''1h'' 5)))"
proof -
  obtain df where
    df: "get_historical_data (example_net example_info ''1h'' 5) example_pandas (init ''1h'' 5) ''BTCUSDT'' = Inr df"
    by (simp add: get_historical_data_candles[OF example_candles] widest_def)
  from series_within_limit[OF example_honours_limit example_candles df] df
  show ?thesis
    by (auto simp: init_def)
qed




text \<open>
  Claim C10. \<^verbatim>\<open>asyncio.gather\<close> returns the results in the order the tasks were
  created, so the order in which the requests finish does not show: a run that completes
  under one schedule completes under every schedule, with the same scraper and the same
  files; and the Symbol column of the written table is one block per catalog entry, in
  the order of the catalog, each block as long as the table of its request.
\<close>

theorem merge_order_deterministic:
  assumes "scrape sched net lib (init t l) files = (Inr (), self', files')"
  shows "scrape sched' net lib (init t l) files = (Inr (), self', files') \<and>
         (\<exists>frames out.
            map (get_historical_data net lib (init t l)) (symbols_list self') = map Inr frames \<and>
            files' output_path = Some out \<and>
            map (\<lambda>line. line ! 6) (lines out)
              = concat (map (\<lambda>(s, f). replicate (length (rows f)) (Val (JStr s)))
                          (zip (symbols_list self') frames)))"
proof -
  from assms obtain frames ts ts' where
    all: "map (get_historical_data net lib (init t l)) (symbols_list self') = map Inr frames" and
    ts: "map (to_datetime lib) (map (\<lambda>r. r ''Open time'') (concat (map rows frames))) = map Inr ts" and
    w: "files' = files(output_path \<mapsto>
        \<lparr>header = ''Open time'' # output_columns,
         lines = map (\<lambda>(t, r). t # map r output_columns) (zip ts (concat (map rows frames)))\<rparr>)"
    by (rule scrape_success)
  let ?R = "concat (map rows frames)"
  let ?out = "\<lparr>header = ''Open time'' # output_columns,
         lines = map (\<lambda>(t, r). t # map r output_columns) (zip ts ?R)\<rparr>"
  have len: "length ts = length ?R"
    using arg_cong[OF ts, of length] by simp
  have "map (\<lambda>line. line ! 6) (lines ?out) = map (\<lambda>r. r ''Symbol'') ?R"
    by (rule nth_equalityI) (simp_all add: len output_columns_def)
  also have "\<dots> = concat (map (\<lambda>f. map (\<lambda>r. r ''Symbol'') (rows f)) frames)"
    by (simp add: map_concat comp_def)
  also have "\<dots> = concat (map (\<lambda>(s, f). replicate (length (rows f)) (Val (JStr s)))
                          (zip (symbols_list self') frames))"
    using all by (rule symbol_column_blocks)
  finally have blocks: "map (\<lambda>line. line ! 6) (lines ?out)
              = concat (map (\<lambda>(s, f). replicate (length (rows f)) (Val (JStr s)))
                          (zip (symbols_list self') frames))" .
  have "files' output_path = Some ?out"
    by (simp add: w)
  with all blocks scrape_any_schedule[OF assms, of sched'] show ?thesis
    by blast
qed

text \<open>
  The example under the schedule in which ETHUSDT finishes before BTCUSDT.
\<close>

theorem merge_order_deterministic_witness:
  "fst (scrape [] (example_net example_info ''1h'' 5) example_pandas (init ''1h'' 5) Map.empty) = Inr () \<and>
   scrape [1, 0] (example_net example_info ''1h'' 5) example_pandas (init ''1h'' 5) Map.empty
     = scrape [] (example_net example_info ''1h'' 5) example_pandas (init ''1h'' 5) Map.empty \<and>
   (\<exists>out. snd (snd (scrape [1, 0] (example_net example_info ''1h'' 5) example_pandas (init ''1h'' 5)
             Map.empty)) output_path = Some out \<and>
          map (\<lambda>line. line ! 6) (lines out)
            = [Val (JStr ''BTCUSDT''), Val (JStr ''BTCUSDT''),
               Val (JStr ''ETHUSDT''), Val (JStr ''ETHUSDT''), Val (JStr ''ETHUSDT'')])"
proof -
  let ?run = "scrape [] (example_net example_info ''1h'' 5) example_pandas (init ''1h'' 5) Map.empty"
  from merge_order_deterministic[OF example_run, of "[1, 0]"] have
    same: "scrape [1, 0] (example_net example_info ''1h'' 5) example_pandas (init ''1h'' 5) Map.empty
             = (Inr (), fst (snd ?run), snd (snd ?run))"
    by blast
  then have eq: "scrape [1, 0] (example_net example_info ''1h'' 5) example_pandas (init ''1h'' 5) Map.empty
             = ?run"
    using example_run by simp
  have "\<exists>out. snd (snd ?run) output_path = Some out \<and>
          map (\<lambda>line. line ! 6) (lines out)
            = [Val (JStr ''BTCUSDT''), Val (JStr ''BTCUSDT''),
               Val (JStr ''ETHUSDT''), Val (JStr ''ETHUSDT''), Val (JStr ''ETHUSDT'')]"
    by (simp add: example_run_files)
  with example_run_outcome eq show ?thesis by simp
qed

end
